theory Spec2Isabelle
  imports Main
begin

section \<open>Python values and strings\<close>

text \<open>
  A Python \<open>str\<close> is modelled as a \<open>string\<close> whose characters are the code points
  below 256. Free-form parameter values (\<open>Dict[str, Any]\<close>) are modelled by the
  scalar values \<open>None\<close>, booleans, integers and strings.
\<close>

datatype pyval = PNone | PBool bool | PInt int | PStr string

text \<open>Python truthiness, as used by \<open>if not x\<close>.\<close>

fun truthy :: "pyval \<Rightarrow> bool" where
  "truthy PNone = False"
| "truthy (PBool b) = b"
| "truthy (PInt i) = (i \<noteq> 0)"
| "truthy (PStr s) = (s \<noteq> [])"

fun str_nat :: "nat \<Rightarrow> string" where
  "str_nat n = (if n < 10 then [char_of (48 + n)]
                else str_nat (n div 10) @ [char_of (48 + n mod 10)])"

text \<open>\<open>str(v)\<close>, which is also what an f-string placeholder inserts.\<close>

fun py_str :: "pyval \<Rightarrow> string" where
  "py_str PNone = ''None''"
| "py_str (PBool b) = (if b then ''True'' else ''False'')"
| "py_str (PInt i) = (if i < 0 then CHR ''-'' # str_nat (nat (- i)) else str_nat (nat i))"
| "py_str (PStr s) = s"

text \<open>
  \<open>str.isdigit\<close>: a non-empty string all of whose characters are digits. Below code
  point 256 these are \<open>0\<close> to \<open>9\<close> and the superscripts two, three and one.
\<close>

definition digit_char :: "char \<Rightarrow> bool" where
  "digit_char c = (let n = (of_char c :: nat)
                   in (48 \<le> n \<and> n \<le> 57) \<or> n = 178 \<or> n = 179 \<or> n = 185)"

definition isdigit :: "string \<Rightarrow> bool" where
  "isdigit s = (s \<noteq> [] \<and> list_all digit_char s)"

text \<open>\<open>str.isspace\<close> on one character, and \<open>str.strip()\<close>.\<close>

definition space_char :: "char \<Rightarrow> bool" where
  "space_char c = ((of_char c :: nat) \<in> {9, 10, 11, 12, 13, 28, 29, 30, 31, 32, 133, 160})"

definition strip :: "string \<Rightarrow> string" where
  "strip s = rev (dropWhile space_char (rev (dropWhile space_char s)))"

text \<open>\<open>" ".join(xs)\<close>.\<close>

fun join_sp :: "string list \<Rightarrow> string" where
  "join_sp [] = []"
| "join_sp [x] = x"
| "join_sp (x # y # ys) = x @ '' '' @ join_sp (y # ys)"

text \<open>
  \<open>bytes.decode()\<close>, the strict UTF-8 decoder. A \<open>bytes\<close> value is a list of
  characters read as bytes. The decoder yields the code points of the text, or
  nothing where Python raises \<open>UnicodeDecodeError\<close>: on a stray continuation byte,
  a truncated or overlong sequence, a surrogate, or a value above U+10FFFF. Code
  points above 255 lie outside the strings modelled here.
\<close>

definition continuation_byte :: "nat \<Rightarrow> bool" where
  "continuation_byte b = (128 \<le> b \<and> b \<le> 191)"

definition second_of_three :: "nat \<Rightarrow> nat \<Rightarrow> bool" where
  "second_of_three b c =
     (if b = 224 then 160 \<le> c \<and> c \<le> 191
      else if b = 237 then 128 \<le> c \<and> c \<le> 159
      else continuation_byte c)"

definition second_of_four :: "nat \<Rightarrow> nat \<Rightarrow> bool" where
  "second_of_four b c =
     (if b = 240 then 144 \<le> c \<and> c \<le> 191
      else if b = 244 then 128 \<le> c \<and> c \<le> 143
      else continuation_byte c)"

fun utf8_code_points :: "nat list \<Rightarrow> nat list option" where
  "utf8_code_points [] = Some []"
| "utf8_code_points (b # bs) =
     (if b < 128 then map_option ((#) b) (utf8_code_points bs)
      else if 194 \<le> b \<and> b \<le> 223
      then (if 1 \<le> length bs \<and> continuation_byte (bs ! 0)
            then map_option ((#) ((b - 192) * 64 + (bs ! 0 - 128))) (utf8_code_points (drop 1 bs))
            else None)
      else if 224 \<le> b \<and> b \<le> 239
      then (if 2 \<le> length bs \<and> second_of_three b (bs ! 0) \<and> continuation_byte (bs ! 1)
            then map_option ((#) ((b - 224) * 4096 + (bs ! 0 - 128) * 64 + (bs ! 1 - 128)))
                   (utf8_code_points (drop 2 bs))
            else None)
      else if 240 \<le> b \<and> b \<le> 244
      then (if 3 \<le> length bs \<and> second_of_four b (bs ! 0) \<and> continuation_byte (bs ! 1)
               \<and> continuation_byte (bs ! 2)
            then map_option ((#) ((b - 240) * 262144 + (bs ! 0 - 128) * 4096
                                  + (bs ! 1 - 128) * 64 + (bs ! 2 - 128)))
                   (utf8_code_points (drop 3 bs))
            else None)
      else None)"

definition decode :: "string \<Rightarrow> string option" where
  "decode bs = map_option (map char_of) (utf8_code_points (map of_char bs))"

section \<open>Configuration (config.py)\<close>

datatype SandboxType = DOCKER | LOCAL | KUBERNETES | REMOTE

record ResourceLimits =
  cpu :: string
  memory :: string
  disk :: string
  rl_timeout :: int
  max_processes :: int

text \<open>The \<open>ValueError\<close>s raised by the three validators of \<open>ResourceLimits\<close>.\<close>

datatype validation_error =
    CpuNotNumeric
  | MemoryTooShort
  | MemoryBadSuffix
  | DiskTooShort
  | DiskBadSuffix

definition validate_cpu :: "string \<Rightarrow> validation_error + string" where
  "validate_cpu v =
     (if \<not> (isdigit v \<or> (isdigit (remove1 CHR ''.'' v) \<and> count_list v CHR ''.'' < 2))
      then Inl CpuNotNumeric
      else Inr v)"

definition valid_suffixes :: "string list" where
  "valid_suffixes = [''K'', ''M'', ''G'', ''T'']"

definition validate_memory :: "string \<Rightarrow> validation_error + string" where
  "validate_memory v =
     (if length v < 2 then Inl MemoryTooShort
      else if [last v] \<notin> set valid_suffixes \<and> \<not> isdigit v then Inl MemoryBadSuffix
      else Inr v)"

definition validate_disk :: "string \<Rightarrow> validation_error + string" where
  "validate_disk v =
     (if length v < 2 then Inl DiskTooShort
      else if [last v] \<notin> set valid_suffixes \<and> \<not> isdigit v then Inl DiskBadSuffix
      else Inr v)"

fun errors_of :: "validation_error + string \<Rightarrow> validation_error list" where
  "errors_of (Inl e) = [e]"
| "errors_of (Inr _) = []"

text \<open>
  Construction of a \<open>ResourceLimits\<close>: the validators of \<open>cpu\<close>, \<open>memory\<close> and
  \<open>disk\<close> run in field order and their errors are collected into one
  \<open>ValidationError\<close>; \<open>timeout\<close> and \<open>max_processes\<close> are plain \<open>int\<close> fields
  with no validator.
\<close>

definition ResourceLimits_init ::
  "string \<Rightarrow> string \<Rightarrow> string \<Rightarrow> int \<Rightarrow> int \<Rightarrow> validation_error list + ResourceLimits" where
  "ResourceLimits_init c m d t p =
     (let errs = errors_of (validate_cpu c) @ errors_of (validate_memory m)
                 @ errors_of (validate_disk d)
      in if errs = [] then Inr \<lparr>cpu = c, memory = m, disk = d, rl_timeout = t, max_processes = p\<rparr>
         else Inl errs)"

text \<open>The field defaults: \<open>ResourceLimits()\<close>.\<close>

definition ResourceLimits_default :: ResourceLimits where
  "ResourceLimits_default =
     \<lparr>cpu = ''1'', memory = ''1G'', disk = ''10G'', rl_timeout = 300, max_processes = 10\<rparr>"

subsection \<open>The formats the validators accept, stated independently\<close>

text \<open>
  A numeric \<open>cpu\<close> string: at most one dot, and what remains without the dots is a
  non-empty run of digits.
\<close>

definition cpu_format :: "string \<Rightarrow> bool" where
  "cpu_format v =
     (let ds = filter (\<lambda>c. c \<noteq> CHR ''.'') v
      in ds \<noteq> [] \<and> list_all digit_char ds \<and> length (filter (\<lambda>c. c = CHR ''.'') v) \<le> 1)"

text \<open>
  A size string has at least two characters and either ends in one of the unit
  letters or consists of digits only; what precedes a unit letter is not inspected.
\<close>

definition size_format :: "string \<Rightarrow> bool" where
  "size_format v =
     (2 \<le> length v \<and> (last v \<in> {CHR ''K'', CHR ''M'', CHR ''G'', CHR ''T''} \<or> list_all digit_char v))"

text \<open>
  The constraints as the specification words them: \<open>cpu\<close> a positive decimal,
  \<open>memory\<close> and \<open>disk\<close> a magnitude with a unit suffix or a raw byte count, and a
  timeout greater than zero.
\<close>

definition spec_cpu_ok :: "string \<Rightarrow> bool" where
  "spec_cpu_ok v = (cpu_format v \<and> (\<exists>c \<in> set v. digit_char c \<and> c \<noteq> CHR ''0''))"

definition spec_size_ok :: "string \<Rightarrow> bool" where
  "spec_size_ok v =
     (isdigit v \<or> (v \<noteq> [] \<and> isdigit (butlast v)
                   \<and> last v \<in> {CHR ''K'', CHR ''M'', CHR ''G'', CHR ''T''}))"

definition spec_limits_ok :: "string \<Rightarrow> string \<Rightarrow> string \<Rightarrow> int \<Rightarrow> bool" where
  "spec_limits_ok c m d t = (spec_cpu_ok c \<and> spec_size_ok m \<and> spec_size_ok d \<and> 0 < t)"

record DockerConfig =
  docker_image :: string
  network_mode :: string
  privileged :: bool
  volumes :: "(string \<times> string) list"
  environment :: "(string \<times> string) list"
  entrypoint :: "string option"
  command :: "string option"

definition DockerConfig_default :: DockerConfig where
  "DockerConfig_default =
     \<lparr>docker_image = ''python:3.12-slim'', network_mode = ''bridge'', privileged = False,
      volumes = [], environment = [], entrypoint = None, command = None\<rparr>"

text \<open>
  \<open>SandboxConfig\<close> and \<open>SandboxRuntimeOptions\<close> carry the same fields; the
  Kubernetes sub-configuration and the metadata bag are never read by the runtime and
  are left out.
\<close>

record SandboxConfig =
  cfg_sandbox_type :: SandboxType
  cfg_resource_limits :: ResourceLimits
  cfg_docker_config :: DockerConfig
  cfg_working_dir :: string
  cfg_cleanup :: bool
  cfg_enable_monitoring :: bool

record SandboxRuntimeOptions =
  sandbox_type :: SandboxType
  resource_limits :: ResourceLimits
  docker_config :: DockerConfig
  working_dir :: string
  cleanup :: bool
  enable_monitoring :: bool

definition DEFAULT_CONFIG :: SandboxConfig where
  "DEFAULT_CONFIG =
     \<lparr>cfg_sandbox_type = DOCKER, cfg_resource_limits = ResourceLimits_default,
      cfg_docker_config = DockerConfig_default, cfg_working_dir = ''/workspace'',
      cfg_cleanup = True, cfg_enable_monitoring = True\<rparr>"

definition SandboxRuntimeOptions_default :: SandboxRuntimeOptions where
  "SandboxRuntimeOptions_default =
     \<lparr>sandbox_type = DOCKER, resource_limits = ResourceLimits_default,
      docker_config = DockerConfig_default, working_dir = ''/workspace'',
      cleanup = True, enable_monitoring = True\<rparr>"

section \<open>Action types and states (action\_executor.py)\<close>

datatype ActionType =
    EXECUTE_COMMAND | RUN_CODE | TRANSFER_FILE | GET_FILE | PUT_FILE
  | DELETE_FILE | LIST_DIRECTORY | CHECK_STATUS | CUSTOM

datatype ActionStatus = PENDING | RUNNING | COMPLETED | FAILED | TIMED_OUT | CANCELLED

text \<open>The string value of each member of the \<open>ActionType\<close> enumeration.\<close>

fun action_type_value :: "ActionType \<Rightarrow> string" where
  "action_type_value EXECUTE_COMMAND = ''execute_command''"
| "action_type_value RUN_CODE = ''run_code''"
| "action_type_value TRANSFER_FILE = ''transfer_file''"
| "action_type_value GET_FILE = ''get_file''"
| "action_type_value PUT_FILE = ''put_file''"
| "action_type_value DELETE_FILE = ''delete_file''"
| "action_type_value LIST_DIRECTORY = ''list_directory''"
| "action_type_value CHECK_STATUS = ''check_status''"
| "action_type_value CUSTOM = ''custom''"

section \<open>Exceptions, the container engine and the clock\<close>

text \<open>
  The exceptions the modelled code raises. The source raises plain \<open>Exception\<close>
  objects told apart by their message; here each message is a constructor.
  \<open>CancelledError\<close> derives from \<open>BaseException\<close>, all others from
  \<open>Exception\<close>.
\<close>

datatype py_exception =
    UnsupportedActionType ActionType
  | MissingParameter string
  | UnsupportedLanguage pyval
  | ContainerNotFound pyval
  | DockerCommandFailed string
  | TimeoutError
  | TypeError
  | AttributeError string
  | UnicodeDecodeError
  | ValueError string
  | OSError string
  | InspectError string
  | HandlerError string
  | CancelledError

fun is_Exception :: "py_exception \<Rightarrow> bool" where
  "is_Exception CancelledError = False"
| "is_Exception _ = True"

text \<open>\<open>str(e)\<close>; the source's messages are rendered in English.\<close>

fun str_exception :: "py_exception \<Rightarrow> string" where
  "str_exception (UnsupportedActionType t) = ''unsupported action type: '' @ action_type_value t"
| "str_exception (MissingParameter m) = m"
| "str_exception (UnsupportedLanguage l) = ''unsupported language: '' @ py_str l"
| "str_exception (ContainerNotFound c) = ''container not found: '' @ py_str c"
| "str_exception (DockerCommandFailed e) = ''docker command failed: '' @ e"
| "str_exception TimeoutError = []"
| "str_exception TypeError = ''sequence item: expected str instance''"
| "str_exception (AttributeError a) = ''object has no attribute '' @ a"
| "str_exception UnicodeDecodeError = ''utf-8 codec cannot decode byte''"
| "str_exception (ValueError m) = m"
| "str_exception (OSError m) = m"
| "str_exception (InspectError m) = m"
| "str_exception (HandlerError m) = m"
| "str_exception CancelledError = []"

text \<open>
  The outcome of one child process: exit code, the bytes written to the two pipes,
  and how long it runs, in milliseconds.
\<close>

record proc =
  returncode :: int
  stdout :: string
  stderr :: string
  duration :: nat

text \<open>
  Why \<open>asyncio.create_subprocess_shell\<close> may fail to start a process: the command
  line holds a null character (\<open>ValueError\<close>), or the operating system refuses
  (\<open>OSError\<close>).
\<close>

datatype spawn_failure = EmbeddedNull | OSFailure string

fun spawn_exception :: "spawn_failure \<Rightarrow> py_exception" where
  "spawn_exception EmbeddedNull = ValueError ''embedded null byte''"
| "spawn_exception (OSFailure m) = OSError m"

text \<open>What \<open>json.loads(inspect_info)[0]\<close> yields of the fields that are read.\<close>

record inspect_info =
  state_status :: pyval
  stats :: "(pyval \<times> pyval) option"

text \<open>
  Everything outside the program is a parameter: whether the shell command line
  given after \<open>n\<close> earlier ones starts a process and what that process does,
  \<open>uuid4_hex\<close>, the \<open>n\<close>-th random identifier drawn, and \<open>json_inspect\<close>, which
  reads the output of \<open>docker inspect\<close>.
\<close>

record env =
  docker :: "nat \<Rightarrow> string \<Rightarrow> spawn_failure + proc"
  uuid4_hex :: "nat \<Rightarrow> string"
  json_inspect :: "string \<Rightarrow> py_exception + inspect_info"

text \<open>
  The observable effects: the shell command lines started so far, the time elapsed
  in milliseconds, and the number of identifiers drawn.
\<close>

record world =
  calls :: "string list"
  clock :: nat
  uuids :: nat

section \<open>The Docker runtime (docker\_runtime.py)\<close>

type_synonym pydict = "(string \<times> pyval) list"

definition dict_get :: "pydict \<Rightarrow> string \<Rightarrow> pyval \<Rightarrow> pyval" where
  "dict_get d k dflt = (case map_of d k of Some v \<Rightarrow> v | None \<Rightarrow> dflt)"

record container_info =
  ci_container_id :: string
  ci_name :: string
  ci_options :: SandboxRuntimeOptions
  ci_status :: string
  ci_created_at :: nat

record DockerRuntime =
  config :: SandboxConfig
  containers :: "string \<rightharpoonup> container_info"
  initialized :: bool

text \<open>\<open>DockerRuntime(config)\<close>.\<close>

definition DockerRuntime_init :: "SandboxConfig option \<Rightarrow> DockerRuntime" where
  "DockerRuntime_init c =
     \<lparr>config = (case c of Some c' \<Rightarrow> c' | None \<Rightarrow> DEFAULT_CONFIG),
      containers = Map.empty, initialized = False\<rparr>"

text \<open>\<open>pipe.decode().strip() if pipe else ""\<close>; nothing where the decoder raises.\<close>

definition decode_strip :: "string \<Rightarrow> string option" where
  "decode_strip pipe = (if pipe \<noteq> [] then map_option strip (decode pipe) else Some [])"

text \<open>
  \<open>_run_docker_command(args, check)\<close>: the words are joined by blanks and handed
  to a shell; if the process cannot be started the exception propagates. Otherwise
  both pipes are drained until the process exits, then standard output
  and standard error are decoded, in this order and before the exit code is looked
  at, and with \<open>check\<close> a non-zero exit code raises.
\<close>

definition run_docker_command ::
  "env \<Rightarrow> string list \<Rightarrow> bool \<Rightarrow> world \<Rightarrow> (py_exception + string) \<times> world" where
  "run_docker_command E args check w =
     (let line = join_sp (''docker'' # args)
      in case docker E (length (calls w)) line of
           Inl failure \<Rightarrow> (Inl (spawn_exception failure), w)
         | Inr p \<Rightarrow>
             (let w' = w\<lparr>calls := calls w @ [line], clock := clock w + duration p\<rparr>
              in case decode_strip (stdout p) of
                   None \<Rightarrow> (Inl UnicodeDecodeError, w')
                 | Some stdout_str \<Rightarrow>
                     (case decode_strip (stderr p) of
                        None \<Rightarrow> (Inl UnicodeDecodeError, w')
                      | Some stderr_str \<Rightarrow>
                          (if check \<and> returncode p \<noteq> 0
                           then (Inl (DockerCommandFailed stderr_str), w')
                           else (Inr stdout_str, w')))))"

text \<open>
  \<open>asyncio.wait_for(self._run_docker_command(cmd), timeout=t)\<close>. With \<open>t \<le> 0\<close>
  the coroutine is cancelled before it starts, so no process is spawned. Otherwise
  the coroutine runs; if its process is still running at the deadline the wait ends with
  \<open>TimeoutError\<close> after \<open>t\<close> seconds, and the process is left running.
\<close>

definition wait_for_docker_command ::
  "env \<Rightarrow> string list \<Rightarrow> int \<Rightarrow> world \<Rightarrow> (py_exception + string) \<times> world" where
  "wait_for_docker_command E args t w =
     (if t \<le> 0 then (Inl TimeoutError, w)
      else let line = join_sp (''docker'' # args)
           in case docker E (length (calls w)) line of
                Inl failure \<Rightarrow> run_docker_command E args True w
              | Inr p \<Rightarrow>
                  (if t * 1000 < int (duration p)
                   then (Inl TimeoutError,
                         w\<lparr>calls := calls w @ [line], clock := clock w + nat (t * 1000)\<rparr>)
                   else run_docker_command E args True w))"

definition initialize ::
  "env \<Rightarrow> DockerRuntime \<times> world \<Rightarrow> (py_exception + unit) \<times> DockerRuntime \<times> world" where
  "initialize E = (\<lambda>(rt, w).
     if initialized rt then (Inr (), rt, w)
     else (case run_docker_command E [''version''] True w of
             (Inr _, w') \<Rightarrow> (Inr (), rt\<lparr>initialized := True\<rparr>, w')
           | (Inl e, w') \<Rightarrow> (Inl e, rt, w')))"

text \<open>\<open>_build_container_config\<close>: only the generated name is used by the caller.\<close>

definition build_container_name :: "env \<Rightarrow> world \<Rightarrow> string \<times> world" where
  "build_container_name E w =
     (''openhands-'' @ take 12 (uuid4_hex E (uuids w)), w\<lparr>uuids := Suc (uuids w)\<rparr>)"

definition truthy_str :: "string option \<Rightarrow> string list" where
  "truthy_str s = (case s of None \<Rightarrow> [] | Some v \<Rightarrow> (if v = [] then [] else [v]))"

definition create_args :: "string \<Rightarrow> SandboxRuntimeOptions \<Rightarrow> string list" where
  "create_args name options =
     [''create'', ''--name'', name, ''--workdir'', working_dir options,
      ''--network'', network_mode (docker_config options)]
     @ [''--cpus'', cpu (resource_limits options)]
     @ [''--memory'', memory (resource_limits options)]
     @ concat (map (\<lambda>(host_path, container_path). [''-v'', host_path @ '':'' @ container_path])
                   (volumes (docker_config options)))
     @ concat (map (\<lambda>(key, val). [''-e'', key @ ''='' @ val])
                   (environment (docker_config options)))
     @ (if privileged (docker_config options) then [''--privileged''] else [])
     @ [docker_image (docker_config options)]
     @ (case truthy_str (entrypoint (docker_config options)) of
          [] \<Rightarrow> [] | e # _ \<Rightarrow> [''--entrypoint'', e])
     @ truthy_str (command (docker_config options))"

text \<open>
  \<open>options.dict()\<close>, the snapshot stored with a container.
  \<open>SandboxRuntimeOptions\<close> is a plain dataclass: it defines \<open>to_dict\<close> and no
  \<open>dict\<close>, so the attribute lookup raises \<open>AttributeError\<close>.
\<close>

definition options_dict :: "SandboxRuntimeOptions \<Rightarrow> py_exception + SandboxRuntimeOptions" where
  "options_dict options = Inl (AttributeError ''dict'')"

text \<open>
  \<open>create_container(options)\<close>: a failing \<open>docker version\<close>, \<open>docker create\<close> or
  \<open>docker start\<close> propagates; the table entry is built, and written, only after
  all three succeeded, and building it evaluates \<open>options.dict()\<close>.
\<close>

definition create_container ::
  "env \<Rightarrow> SandboxRuntimeOptions option \<Rightarrow> DockerRuntime \<times> world
     \<Rightarrow> (py_exception + string) \<times> DockerRuntime \<times> world" where
  "create_container E opts = (\<lambda>(rt, w).
     case initialize E (rt, w) of
       (Inl e, rt1, w1) \<Rightarrow> (Inl e, rt1, w1)
     | (Inr _, rt1, w1) \<Rightarrow>
         (let options = (case opts of Some p \<Rightarrow> p | None \<Rightarrow> SandboxRuntimeOptions_default);
              (name, w2) = build_container_name E w1
          in case run_docker_command E (create_args name options) True w2 of
               (Inl e, w3) \<Rightarrow> (Inl e, rt1, w3)
             | (Inr container_id, w3) \<Rightarrow>
                 (case run_docker_command E [''start'', container_id] True w3 of
                    (Inl e, w4) \<Rightarrow> (Inl e, rt1, w4)
                  | (Inr _, w4) \<Rightarrow>
                      (case options_dict options of
                         Inl e \<Rightarrow> (Inl e, rt1, w4)
                       | Inr snapshot \<Rightarrow>
                           (Inr container_id,
                            rt1\<lparr>containers := (containers rt1)(container_id \<mapsto>
                                   \<lparr>ci_container_id = container_id, ci_name = name,
                                    ci_options = snapshot, ci_status = ''running'',
                                    ci_created_at = clock w4\<rparr>)\<rparr>,
                            w4)))))"

text \<open>
  \<open>container_id not in self._containers\<close>: the keys of the table are strings, so a
  value of another type is never a key.
\<close>

definition registered :: "DockerRuntime \<Rightarrow> pyval \<Rightarrow> string option" where
  "registered rt v =
     (case v of PStr s \<Rightarrow> (if s \<in> dom (containers rt) then Some s else None) | _ \<Rightarrow> None)"

text \<open>\<open>timeout or self.config.resource_limits.timeout\<close>.\<close>

definition effective_timeout :: "DockerRuntime \<Rightarrow> int option \<Rightarrow> int" where
  "effective_timeout rt tmo =
     (case tmo of
        None \<Rightarrow> rl_timeout (cfg_resource_limits (config rt))
      | Some t \<Rightarrow> (if t \<noteq> 0 then t else rl_timeout (cfg_resource_limits (config rt))))"

text \<open>
  \<open>execute_command(container_id, command, timeout)\<close>. A command that is not a
  string makes \<open>" ".join\<close> raise \<open>TypeError\<close> as soon as the wrapped coroutine
  starts, before any process is spawned.
\<close>

definition execute_command ::
  "env \<Rightarrow> pyval \<Rightarrow> pyval \<Rightarrow> int option \<Rightarrow> DockerRuntime \<times> world
     \<Rightarrow> (py_exception + pydict) \<times> DockerRuntime \<times> world" where
  "execute_command E container_id cmd tmo = (\<lambda>(rt, w).
     case registered rt container_id of
       None \<Rightarrow> (Inl (ContainerNotFound container_id), rt, w)
     | Some cid \<Rightarrow>
         (let t = effective_timeout rt tmo;
              (r, w') = (case cmd of
                           PStr c \<Rightarrow> wait_for_docker_command E [''exec'', cid, ''sh'', ''-c'', c] t w
                         | _ \<Rightarrow> (if t \<le> 0 then (Inl TimeoutError, w) else (Inl TypeError, w)))
          in case r of
               Inr out \<Rightarrow>
                 (Inr [(''success'', PBool True), (''output'', PStr out),
                       (''return_code'', PInt 0)], rt, w')
             | Inl e \<Rightarrow>
                 (if e = TimeoutError
                  then (Inr [(''success'', PBool False), (''output'', PStr ''command timed out''),
                             (''return_code'', PInt (- 1)), (''error'', PStr ''Timeout'')], rt, w')
                  else if is_Exception e
                  then (Inr [(''success'', PBool False), (''output'', PStr (str_exception e)),
                             (''return_code'', PInt (- 1)),
                             (''error'', PStr (str_exception e))], rt, w')
                  else (Inl e, rt, w'))))"

definition copy_to_container ::
  "env \<Rightarrow> pyval \<Rightarrow> pyval \<Rightarrow> pyval \<Rightarrow> DockerRuntime \<times> world
     \<Rightarrow> (py_exception + bool) \<times> DockerRuntime \<times> world" where
  "copy_to_container E container_id host_path container_path = (\<lambda>(rt, w).
     case registered rt container_id of
       None \<Rightarrow> (Inl (ContainerNotFound container_id), rt, w)
     | Some cid \<Rightarrow>
         (case host_path of
            PStr hp \<Rightarrow>
              (case run_docker_command E [''cp'', hp, cid @ '':'' @ py_str container_path] True w of
                 (Inr _, w') \<Rightarrow> (Inr True, rt, w')
               | (Inl _, w') \<Rightarrow> (Inr False, rt, w'))
          | _ \<Rightarrow> (Inr False, rt, w)))"

definition copy_from_container ::
  "env \<Rightarrow> pyval \<Rightarrow> pyval \<Rightarrow> pyval \<Rightarrow> DockerRuntime \<times> world
     \<Rightarrow> (py_exception + bool) \<times> DockerRuntime \<times> world" where
  "copy_from_container E container_id container_path host_path = (\<lambda>(rt, w).
     case registered rt container_id of
       None \<Rightarrow> (Inl (ContainerNotFound container_id), rt, w)
     | Some cid \<Rightarrow>
         (case host_path of
            PStr hp \<Rightarrow>
              (case run_docker_command E [''cp'', cid @ '':'' @ py_str container_path, hp] True w of
                 (Inr _, w') \<Rightarrow> (Inr True, rt, w')
               | (Inl _, w') \<Rightarrow> (Inr False, rt, w'))
          | _ \<Rightarrow> (Inr False, rt, w)))"

text \<open>
  \<open>get_container_status\<close>: an unknown container raises; any failure while
  inspecting a known one is turned into a status \<open>unknown\<close> with an error field.
\<close>

definition status_dict ::
  "string \<Rightarrow> container_info \<Rightarrow> pyval \<Rightarrow> pyval \<Rightarrow> pyval \<Rightarrow> pydict" where
  "status_dict cid info st cpu_usage memory_usage =
     [(''container_id'', PStr cid), (''name'', PStr (ci_name info)), (''status'', st),
      (''cpu_usage'', cpu_usage), (''memory_usage'', memory_usage),
      (''created_at'', PInt (int (ci_created_at info)))]"

definition get_container_status ::
  "env \<Rightarrow> pyval \<Rightarrow> DockerRuntime \<times> world
     \<Rightarrow> (py_exception + pydict) \<times> DockerRuntime \<times> world" where
  "get_container_status E container_id = (\<lambda>(rt, w).
     case registered rt container_id of
       None \<Rightarrow> (Inl (ContainerNotFound container_id), rt, w)
     | Some cid \<Rightarrow>
         (case containers rt cid of
            None \<Rightarrow> (Inl (ContainerNotFound container_id), rt, w)
          | Some info \<Rightarrow>
              (case run_docker_command E [''inspect'', cid] True w of
                 (Inl e, w') \<Rightarrow>
                   (Inr (status_dict cid info (PStr ''unknown'') (PInt 0) (PInt 0)
                         @ [(''error'', PStr (str_exception e))]), rt, w')
               | (Inr inspect_out, w') \<Rightarrow>
                   (case json_inspect E inspect_out of
                      Inl e \<Rightarrow>
                        (Inr (status_dict cid info (PStr ''unknown'') (PInt 0) (PInt 0)
                              @ [(''error'', PStr (str_exception e))]), rt, w')
                    | Inr info_json \<Rightarrow>
                        (case stats info_json of
                           None \<Rightarrow>
                             (Inr (status_dict cid info (state_status info_json) (PInt 0) (PInt 0)),
                              rt, w')
                         | Some (cpu_usage, memory_usage) \<Rightarrow>
                             (Inr (status_dict cid info (state_status info_json)
                                     cpu_usage memory_usage), rt, w'))))))"

definition stop_container ::
  "env \<Rightarrow> pyval \<Rightarrow> DockerRuntime \<times> world
     \<Rightarrow> (py_exception + bool) \<times> DockerRuntime \<times> world" where
  "stop_container E container_id = (\<lambda>(rt, w).
     case registered rt container_id of
       None \<Rightarrow> (Inl (ContainerNotFound container_id), rt, w)
     | Some cid \<Rightarrow>
         (case run_docker_command E [''stop'', cid] True w of
            (Inl _, w') \<Rightarrow> (Inr False, rt, w')
          | (Inr _, w') \<Rightarrow>
              (Inr True,
               rt\<lparr>containers := (\<lambda>k. if k = cid
                                      then map_option (\<lambda>i. i\<lparr>ci_status := ''stopped''\<rparr>)
                                             (containers rt k)
                                      else containers rt k)\<rparr>,
               w')))"

text \<open>
  \<open>remove_container(container_id, force)\<close>: the membership test stands before
  the \<open>try\<close>, so an unknown identifier raises; inside the \<open>try\<close> a running
  container is stopped first, and the table entry is deleted only after
  \<open>docker rm\<close> succeeded.
\<close>

definition remove_container ::
  "env \<Rightarrow> pyval \<Rightarrow> bool \<Rightarrow> DockerRuntime \<times> world
     \<Rightarrow> (py_exception + bool) \<times> DockerRuntime \<times> world" where
  "remove_container E container_id force = (\<lambda>(rt, w).
     case registered rt container_id of
       None \<Rightarrow> (Inl (ContainerNotFound container_id), rt, w)
     | Some cid \<Rightarrow>
         (case get_container_status E container_id (rt, w) of
            (Inl _, rt1, w1) \<Rightarrow> (Inr False, rt1, w1)
          | (Inr st, rt1, w1) \<Rightarrow>
              (let (rt2, w2) =
                     (if map_of st ''status'' = Some (PStr ''running'')
                      then snd (stop_container E container_id (rt1, w1))
                      else (rt1, w1))
               in case run_docker_command E ([''rm''] @ (if force then [''-f''] else []) @ [cid])
                         True w2 of
                    (Inl _, w3) \<Rightarrow> (Inr False, rt2, w3)
                  | (Inr _, w3) \<Rightarrow>
                      (Inr True, rt2\<lparr>containers := (containers rt2)(cid := None)\<rparr>, w3))))"

text \<open>
  \<open>DockerRuntimeFactory.get_instance()\<close> on the singleton slot: the instance is
  stored before it is initialised, and an instance already stored is returned as it
  is.
\<close>

definition get_instance ::
  "env \<Rightarrow> DockerRuntime option \<Rightarrow> world
     \<Rightarrow> (py_exception + DockerRuntime) \<times> DockerRuntime option \<times> world" where
  "get_instance E inst w =
     (case inst of
        Some rt \<Rightarrow> (Inr rt, Some rt, w)
      | None \<Rightarrow>
          (case initialize E (DockerRuntime_init None, w) of
             (Inl e, rt', w') \<Rightarrow> (Inl e, Some rt', w')
           | (Inr _, rt', w') \<Rightarrow> (Inr rt', Some rt', w')))"

section \<open>The action executor (action\_executor.py)\<close>

record ActionRequest =
  action_type :: ActionType
  parameters :: "string \<rightharpoonup> pyval"
  sandbox_options :: "SandboxRuntimeOptions option"
  timeout :: int
  req_metadata :: "string \<rightharpoonup> pyval"

text \<open>A handler's payload: scalar entries, and the nested status dictionary.\<close>

datatype rval = RVal pyval | RDict pydict

type_synonym result_dict = "(string \<times> rval) list"

text \<open>\<open>execution_time\<close> is kept in milliseconds.\<close>

record ActionResponse =
  action_id :: string
  status :: ActionStatus
  result :: "result_dict option"
  error :: "string option"
  execution_time :: nat
  metadata :: "string \<rightharpoonup> pyval"

type_synonym handler =
  "ActionRequest \<Rightarrow> ActionResponse \<Rightarrow> DockerRuntime \<times> world
     \<Rightarrow> (py_exception + result_dict) \<times> ActionResponse \<times> DockerRuntime \<times> world"

text \<open>\<open>request.parameters.get(key)\<close> and \<open>request.parameters.get(key, default)\<close>.\<close>

definition param :: "ActionRequest \<Rightarrow> string \<Rightarrow> pyval" where
  "param request k = (case parameters request k of Some v \<Rightarrow> v | None \<Rightarrow> PNone)"

definition param_or :: "ActionRequest \<Rightarrow> string \<Rightarrow> pyval \<Rightarrow> pyval" where
  "param_or request k dflt = (case parameters request k of Some v \<Rightarrow> v | None \<Rightarrow> dflt)"

text \<open>
  The block shared by the command and the code handler: without a usable
  \<open>container_id\<close> parameter a container is created and its identifier is written
  to \<open>response.metadata["temp_container"]\<close>.
\<close>

definition container_for ::
  "env \<Rightarrow> ActionRequest \<Rightarrow> ActionResponse \<Rightarrow> DockerRuntime \<times> world
     \<Rightarrow> (py_exception + pyval) \<times> ActionResponse \<times> DockerRuntime \<times> world" where
  "container_for E request response = (\<lambda>(rt, w).
     let container_id = param request ''container_id''
     in if \<not> truthy container_id
        then (case create_container E (sandbox_options request) (rt, w) of
                (Inl e, rt', w') \<Rightarrow> (Inl e, response, rt', w')
              | (Inr cid, rt', w') \<Rightarrow>
                  (Inr (PStr cid),
                   response\<lparr>metadata := (metadata response)(''temp_container'' \<mapsto> PStr cid)\<rparr>,
                   rt', w'))
        else (Inr container_id, response, rt, w))"

definition command_result :: "pydict \<Rightarrow> result_dict" where
  "command_result r =
     [(''output'', RVal (dict_get r ''output'' (PStr []))),
      (''return_code'', RVal (dict_get r ''return_code'' (PInt (- 1)))),
      (''success'', RVal (dict_get r ''success'' (PBool False)))]"

definition handle_execute_command :: "env \<Rightarrow> handler" where
  "handle_execute_command E request response = (\<lambda>(rt, w).
     let cmd = param request ''command''
     in if \<not> truthy cmd
        then (Inl (MissingParameter ''command parameter missing''), response, rt, w)
        else (case container_for E request response (rt, w) of
                (Inl e, response1, rt1, w1) \<Rightarrow> (Inl e, response1, rt1, w1)
              | (Inr container_id, response1, rt1, w1) \<Rightarrow>
                  (case execute_command E container_id cmd (Some (timeout request)) (rt1, w1) of
                     (Inl e, rt2, w2) \<Rightarrow> (Inl e, response1, rt2, w2)
                   | (Inr r, rt2, w2) \<Rightarrow> (Inr (command_result r), response1, rt2, w2))))"

text \<open>
  \<open>code.replace('"', '\\\\"')\<close>: every double quote becomes two backslashes and a
  double quote. A \<open>code\<close> value that is not a string has no \<open>replace\<close>.
\<close>

definition escape_quotes :: "string \<Rightarrow> string" where
  "escape_quotes code =
     concat (map (\<lambda>c. if c = CHR 0x22 then [CHR 0x5C, CHR 0x5C, CHR 0x22] else [c]) code)"

definition quoted_invocation :: "string \<Rightarrow> pyval \<Rightarrow> py_exception + pyval" where
  "quoted_invocation prefix code =
     (case code of
        PStr c \<Rightarrow> Inr (PStr (prefix @ [CHR 0x22] @ escape_quotes c @ [CHR 0x22]))
      | _ \<Rightarrow> Inl (AttributeError ''replace''))"

definition code_command :: "pyval \<Rightarrow> pyval \<Rightarrow> py_exception + pyval" where
  "code_command language code =
     (if language = PStr ''python'' then quoted_invocation ''python -c '' code
      else if language = PStr ''javascript'' then quoted_invocation ''node -e '' code
      else if language = PStr ''bash'' then Inr code
      else Inl (UnsupportedLanguage language))"

definition handle_run_code :: "env \<Rightarrow> handler" where
  "handle_run_code E request response = (\<lambda>(rt, w).
     let code = param request ''code'';
         language = param_or request ''language'' (PStr ''python'')
     in if \<not> truthy code
        then (Inl (MissingParameter ''code parameter missing''), response, rt, w)
        else (case code_command language code of
                Inl e \<Rightarrow> (Inl e, response, rt, w)
              | Inr cmd \<Rightarrow>
                  (case container_for E request response (rt, w) of
                     (Inl e, response1, rt1, w1) \<Rightarrow> (Inl e, response1, rt1, w1)
                   | (Inr container_id, response1, rt1, w1) \<Rightarrow>
                       (case execute_command E container_id cmd (Some (timeout request))
                               (rt1, w1) of
                          (Inl e, rt2, w2) \<Rightarrow> (Inl e, response1, rt2, w2)
                        | (Inr r, rt2, w2) \<Rightarrow>
                            (Inr (command_result r @ [(''language'', RVal language)]),
                             response1, rt2, w2)))))"

definition handle_transfer_file :: "env \<Rightarrow> handler" where
  "handle_transfer_file E request response = (\<lambda>(rt, w).
     let source_path = param request ''source_path'';
         destination_path = param request ''destination_path'';
         container_id = param request ''container_id''
     in if \<not> truthy source_path \<or> \<not> truthy destination_path
        then (Inl (MissingParameter ''source and destination path parameters missing''),
              response, rt, w)
        else if \<not> truthy container_id
        then (Inl (MissingParameter ''container id parameter missing''), response, rt, w)
        else (case copy_to_container E container_id source_path destination_path (rt, w) of
                (Inl e, rt1, w1) \<Rightarrow> (Inl e, response, rt1, w1)
              | (Inr _, rt1, w1) \<Rightarrow>
                  (Inr [(''success'', RVal (PBool True)), (''source'', RVal source_path),
                        (''destination'', RVal destination_path)], response, rt1, w1)))"

definition handle_get_file :: "env \<Rightarrow> handler" where
  "handle_get_file E request response = (\<lambda>(rt, w).
     let container_path = param request ''container_path'';
         host_path = param request ''host_path'';
         container_id = param request ''container_id''
     in if \<not> truthy container_path \<or> \<not> truthy host_path
        then (Inl (MissingParameter ''container and host path parameters missing''),
              response, rt, w)
        else if \<not> truthy container_id
        then (Inl (MissingParameter ''container id parameter missing''), response, rt, w)
        else (case copy_from_container E container_id container_path host_path (rt, w) of
                (Inl e, rt1, w1) \<Rightarrow> (Inl e, response, rt1, w1)
              | (Inr _, rt1, w1) \<Rightarrow>
                  (Inr [(''success'', RVal (PBool True)), (''container_path'', RVal container_path),
                        (''host_path'', RVal host_path)], response, rt1, w1)))"

definition handle_put_file :: "env \<Rightarrow> handler" where
  "handle_put_file E request response = handle_transfer_file E request response"

definition handle_delete_file :: "env \<Rightarrow> handler" where
  "handle_delete_file E request response = (\<lambda>(rt, w).
     let file_path = param request ''file_path'';
         container_id = param request ''container_id''
     in if \<not> truthy file_path
        then (Inl (MissingParameter ''file path parameter missing''), response, rt, w)
        else if \<not> truthy container_id
        then (Inl (MissingParameter ''container id parameter missing''), response, rt, w)
        else (case execute_command E container_id (PStr (''rm -f '' @ py_str file_path))
                     (Some (timeout request)) (rt, w) of
                (Inl e, rt1, w1) \<Rightarrow> (Inl e, response, rt1, w1)
              | (Inr r, rt1, w1) \<Rightarrow>
                  (Inr [(''success'', RVal (dict_get r ''success'' (PBool False))),
                        (''file_path'', RVal file_path)], response, rt1, w1)))"

definition handle_list_directory :: "env \<Rightarrow> handler" where
  "handle_list_directory E request response = (\<lambda>(rt, w).
     let directory_path = param request ''directory_path'';
         container_id = param request ''container_id''
     in if \<not> truthy directory_path
        then (Inl (MissingParameter ''directory path parameter missing''), response, rt, w)
        else if \<not> truthy container_id
        then (Inl (MissingParameter ''container id parameter missing''), response, rt, w)
        else (case execute_command E container_id (PStr (''ls -la '' @ py_str directory_path))
                     (Some (timeout request)) (rt, w) of
                (Inl e, rt1, w1) \<Rightarrow> (Inl e, response, rt1, w1)
              | (Inr r, rt1, w1) \<Rightarrow>
                  (Inr [(''success'', RVal (dict_get r ''success'' (PBool False))),
                        (''directory'', RVal directory_path),
                        (''content'', RVal (dict_get r ''output'' (PStr [])))],
                   response, rt1, w1)))"

definition handle_check_status :: "env \<Rightarrow> handler" where
  "handle_check_status E request response = (\<lambda>(rt, w).
     let container_id = param request ''container_id''
     in if \<not> truthy container_id
        then (Inl (MissingParameter ''container id parameter missing''), response, rt, w)
        else (case get_container_status E container_id (rt, w) of
                (Inl e, rt1, w1) \<Rightarrow> (Inl e, response, rt1, w1)
              | (Inr st, rt1, w1) \<Rightarrow>
                  (Inr [(''success'', RVal (PBool True)), (''container_status'', RDict st)],
                   response, rt1, w1)))"

text \<open>\<open>_register_default_handlers_sync\<close>: every type but \<open>CUSTOM\<close> gets a handler.\<close>

fun default_handlers :: "env \<Rightarrow> ActionType \<rightharpoonup> handler" where
  "default_handlers E EXECUTE_COMMAND = Some (handle_execute_command E)"
| "default_handlers E RUN_CODE = Some (handle_run_code E)"
| "default_handlers E TRANSFER_FILE = Some (handle_transfer_file E)"
| "default_handlers E GET_FILE = Some (handle_get_file E)"
| "default_handlers E PUT_FILE = Some (handle_put_file E)"
| "default_handlers E DELETE_FILE = Some (handle_delete_file E)"
| "default_handlers E LIST_DIRECTORY = Some (handle_list_directory E)"
| "default_handlers E CHECK_STATUS = Some (handle_check_status E)"
| "default_handlers E CUSTOM = None"

text \<open>
  The executor's \<open>_runtime\<close> field together with the factory's singleton slot. The
  two may name the same object, so they are kept in one value: the executor has no
  runtime yet (and the slot is as given), it has a runtime of its own, or it holds
  the singleton itself.
\<close>

datatype runtime_state =
    NotAcquired "DockerRuntime option"
  | Private DockerRuntime "DockerRuntime option"
  | Singleton DockerRuntime

record system =
  runtime :: runtime_state
  action_handlers :: "ActionType \<rightharpoonup> handler"
  wld :: world

definition register_action_handler :: "ActionType \<Rightarrow> handler \<Rightarrow> system \<Rightarrow> system" where
  "register_action_handler t h s = s\<lparr>action_handlers := (action_handlers s)(t \<mapsto> h)\<rparr>"

text \<open>\<open>str(uuid.uuid4())\<close>: the 32 hexadecimal digits in groups of 8, 4, 4, 4 and 12.\<close>

definition uuid4_str :: "env \<Rightarrow> world \<Rightarrow> string \<times> world" where
  "uuid4_str E w =
     (let h = uuid4_hex E (uuids w)
      in (take 8 h @ ''-'' @ take 4 (drop 8 h) @ ''-'' @ take 4 (drop 12 h) @ ''-''
          @ take 4 (drop 16 h) @ ''-'' @ drop 20 h,
          w\<lparr>uuids := Suc (uuids w)\<rparr>))"

text \<open>\<open>if action_id is None: action_id = str(uuid.uuid4())\<close>.\<close>

definition new_action_id :: "env \<Rightarrow> string option \<Rightarrow> world \<Rightarrow> string \<times> world" where
  "new_action_id E aid w = (case aid of Some a \<Rightarrow> (a, w) | None \<Rightarrow> uuid4_str E w)"

text \<open>
  \<open>if self._runtime is None: self._runtime = await DockerRuntimeFactory.get_instance()\<close>.
  This stands before the \<open>try\<close>: an exception raised here leaves \<open>execute_action\<close>.
\<close>

definition acquire_runtime ::
  "env \<Rightarrow> runtime_state \<Rightarrow> world
     \<Rightarrow> (py_exception + DockerRuntime) \<times> runtime_state \<times> world" where
  "acquire_runtime E r w =
     (case r of
        NotAcquired inst \<Rightarrow>
          (case get_instance E inst w of
             (Inl e, inst', w') \<Rightarrow> (Inl e, NotAcquired inst', w')
           | (Inr rt, inst', w') \<Rightarrow> (Inr rt, Singleton rt, w'))
      | Private rt inst \<Rightarrow> (Inr rt, r, w)
      | Singleton rt \<Rightarrow> (Inr rt, r, w))"

text \<open>
  The handlers mutate the runtime object in place: \<open>set_runtime\<close> stores the
  updated runtime where the executor's field points, and \<open>the_runtime\<close> reads the
  field.
\<close>

fun set_runtime :: "runtime_state \<Rightarrow> DockerRuntime \<Rightarrow> runtime_state" where
  "set_runtime (NotAcquired inst) rt = NotAcquired inst"
| "set_runtime (Private _ inst) rt = Private rt inst"
| "set_runtime (Singleton _) rt = Singleton rt"

fun the_runtime :: "runtime_state \<Rightarrow> DockerRuntime option" where
  "the_runtime (NotAcquired inst) = None"
| "the_runtime (Private rt inst) = Some rt"
| "the_runtime (Singleton rt) = Some rt"

text \<open>
  The \<open>try\<close> block of \<open>execute_action\<close>: handler lookup, the timed handler call
  and the three outcomes. An exception that is not an \<open>Exception\<close> is caught by
  neither \<open>except\<close> clause and leaves the function.
\<close>

definition run_handler ::
  "(ActionType \<rightharpoonup> handler) \<Rightarrow> ActionRequest \<Rightarrow> ActionResponse \<Rightarrow> DockerRuntime \<times> world
     \<Rightarrow> (py_exception + ActionResponse) \<times> DockerRuntime \<times> world" where
  "run_handler handlers request response = (\<lambda>(rt, w).
     case handlers (action_type request) of
       None \<Rightarrow>
         (Inr (response\<lparr>status := FAILED,
                 error := Some (str_exception (UnsupportedActionType (action_type request)))\<rparr>),
          rt, w)
     | Some h \<Rightarrow>
         (let start_time = clock w
          in case h request response (rt, w) of
               (Inr res, response1, rt1, w1) \<Rightarrow>
                 (Inr (response1\<lparr>status := COMPLETED, result := Some res,
                         execution_time := clock w1 - start_time\<rparr>), rt1, w1)
             | (Inl e, response1, rt1, w1) \<Rightarrow>
                 (if e = TimeoutError
                  then (Inr (response1\<lparr>status := TIMED_OUT,
                               error := Some ''action execution timed out''\<rparr>), rt1, w1)
                  else if is_Exception e
                  then (Inr (response1\<lparr>status := FAILED, error := Some (str_exception e)\<rparr>),
                        rt1, w1)
                  else (Inl e, rt1, w1))))"

definition execute_action ::
  "env \<Rightarrow> ActionRequest \<Rightarrow> string option \<Rightarrow> system
     \<Rightarrow> (py_exception + ActionResponse) \<times> system" where
  "execute_action E request aid s =
     (let (action_id, w0) = new_action_id E aid (wld s)
      in case acquire_runtime E (runtime s) w0 of
           (Inl e, r1, w1) \<Rightarrow> (Inl e, s\<lparr>runtime := r1, wld := w1\<rparr>)
         | (Inr rt, r1, w1) \<Rightarrow>
             (let action_response =
                    \<lparr>action_id = action_id, status = RUNNING, result = None, error = None,
                     execution_time = 0, metadata = req_metadata request\<rparr>
              in case run_handler (action_handlers s) request action_response (rt, w1) of
                   (r, rt2, w2) \<Rightarrow> (r, s\<lparr>runtime := set_runtime r1 rt2, wld := w2\<rparr>)))"

section \<open>The action server (action\_executor.py)\<close>

text \<open>
  What a unit of work that has not finished does when it is cancelled and awaited:
  the \<open>CancelledError\<close> reaches the task boundary, or the coroutine catches it and
  returns a response, or it raises something else. \<open>execute_action\<close> and the
  built-in handlers have \<open>except\<close> clauses for \<open>asyncio.TimeoutError\<close> and for
  \<open>Exception\<close> only, neither of which catches \<open>CancelledError\<close>, so their
  reaction is \<open>Propagates\<close>.
\<close>

datatype cancel_reaction = Propagates | Returns ActionResponse | Raises py_exception

datatype task =
    Unfinished cancel_reaction
  | Finished ActionResponse
  | Failed py_exception
  | CancelledTask

text \<open>\<open>task.done()\<close>, and \<open>task.result()\<close> of a task that is done.\<close>

fun task_done :: "task \<Rightarrow> bool" where
  "task_done (Unfinished _) = False"
| "task_done _ = True"

fun task_result :: "task \<Rightarrow> py_exception + ActionResponse option" where
  "task_result (Finished r) = Inr (Some r)"
| "task_result (Failed e) = Inl e"
| "task_result CancelledTask = Inl CancelledError"
| "task_result (Unfinished _) = Inl (HandlerError ''invalid state: result is not set'')"

text \<open>\<open>task.cancel()\<close> followed by \<open>await task\<close>: the state the task ends in.\<close>

fun cancel_and_await :: "task \<Rightarrow> task" where
  "cancel_and_await (Unfinished Propagates) = CancelledTask"
| "cancel_and_await (Unfinished (Returns r)) = Finished r"
| "cancel_and_await (Unfinished (Raises e)) = (if e = CancelledError then CancelledTask else Failed e)"
| "cancel_and_await t = t"

record ActionServer =
  running_actions :: "string \<rightharpoonup> task"

definition get_action_result ::
  "string \<Rightarrow> ActionServer \<Rightarrow> (py_exception + ActionResponse option) \<times> ActionServer" where
  "get_action_result aid srv =
     (case running_actions srv aid of
        None \<Rightarrow> (Inr None, srv)
      | Some t \<Rightarrow>
          (if task_done t
           then (task_result t, srv\<lparr>running_actions := (running_actions srv)(aid := None)\<rparr>)
           else (Inr None, srv)))"

text \<open>
  \<open>cancel_action\<close>: the entry is deleted in the \<open>try\<close> body, after \<open>await task\<close>
  returned; the two \<open>except\<close> clauses return without deleting it.
\<close>

definition cancel_action :: "string \<Rightarrow> ActionServer \<Rightarrow> bool \<times> ActionServer" where
  "cancel_action aid srv =
     (case running_actions srv aid of
        None \<Rightarrow> (False, srv)
      | Some t \<Rightarrow>
          (if task_done t then (False, srv)
           else (case cancel_and_await t of
                   Finished r \<Rightarrow>
                     (True, srv\<lparr>running_actions := (running_actions srv)(aid := None)\<rparr>)
                 | CancelledTask \<Rightarrow>
                     (True, srv\<lparr>running_actions := (running_actions srv)(aid \<mapsto> CancelledTask)\<rparr>)
                 | t' \<Rightarrow>
                     (False, srv\<lparr>running_actions := (running_actions srv)(aid \<mapsto> t')\<rparr>))))"

text \<open>\<open>get_running_actions\<close>: the identifiers in the table.\<close>

definition get_running_actions :: "ActionServer \<Rightarrow> string set" where
  "get_running_actions srv = dom (running_actions srv)"

section \<open>The parameters each built-in handler checks\<close>

text \<open>
  The parameters whose absence (or falsy value) makes the handler of a type raise
  before it touches the runtime, read off the handlers.
\<close>

fun required_parameters :: "ActionType \<Rightarrow> string list" where
  "required_parameters EXECUTE_COMMAND = [''command'']"
| "required_parameters RUN_CODE = [''code'']"
| "required_parameters TRANSFER_FILE = [''source_path'', ''destination_path'', ''container_id'']"
| "required_parameters PUT_FILE = [''source_path'', ''destination_path'', ''container_id'']"
| "required_parameters GET_FILE = [''container_path'', ''host_path'', ''container_id'']"
| "required_parameters DELETE_FILE = [''file_path'', ''container_id'']"
| "required_parameters LIST_DIRECTORY = [''directory_path'', ''container_id'']"
| "required_parameters CHECK_STATUS = [''container_id'']"
| "required_parameters CUSTOM = []"

text \<open>The required parameters as the specification lists them.\<close>

fun spec_required_parameters :: "ActionType \<Rightarrow> string list" where
  "spec_required_parameters RUN_CODE = [''code'', ''language'']"
| "spec_required_parameters t = required_parameters t"

section \<open>Concrete engines, runtimes and requests\<close>

text \<open>
  Five engines: one on which every command exits 0 after 10 ms and prints a
  container identifier, one on which every command exits 1, one on which every
  command needs 5 seconds, one on which every command exits 0 and prints two bytes
  that are not UTF-8, and one on which no process can be started.
\<close>

definition engine_ok :: env where
  "engine_ok =
     \<lparr>docker = (\<lambda>n line. Inr \<lparr>returncode = 0, stdout = ''c7'' @ [CHR 0x0A], stderr = [],
                            duration = 10\<rparr>),
      uuid4_hex = (\<lambda>n. ''0123456789abcdef0123456789abcdef''),
      json_inspect = (\<lambda>out. Inr \<lparr>state_status = PStr ''running'', stats = None\<rparr>)\<rparr>"

definition engine_failing :: env where
  "engine_failing =
     \<lparr>docker = (\<lambda>n line. Inr \<lparr>returncode = 1, stdout = [], stderr = ''cannot connect to the engine'',
                            duration = 10\<rparr>),
      uuid4_hex = (\<lambda>n. ''0123456789abcdef0123456789abcdef''),
      json_inspect = (\<lambda>out. Inl (InspectError ''invalid json''))\<rparr>"

definition engine_slow :: env where
  "engine_slow =
     \<lparr>docker = (\<lambda>n line. Inr \<lparr>returncode = 0, stdout = ''done'', stderr = [], duration = 5000\<rparr>),
      uuid4_hex = (\<lambda>n. ''0123456789abcdef0123456789abcdef''),
      json_inspect = (\<lambda>out. Inr \<lparr>state_status = PStr ''running'', stats = None\<rparr>)\<rparr>"

definition engine_binary :: env where
  "engine_binary =
     \<lparr>docker = (\<lambda>n line. Inr \<lparr>returncode = 0, stdout = [CHR 0xFF, CHR 0xFE], stderr = [],
                            duration = 10\<rparr>),
      uuid4_hex = (\<lambda>n. ''0123456789abcdef0123456789abcdef''),
      json_inspect = (\<lambda>out. Inr \<lparr>state_status = PStr ''running'', stats = None\<rparr>)\<rparr>"

definition engine_refusing :: env where
  "engine_refusing =
     \<lparr>docker = (\<lambda>n line. Inl (OSFailure ''cannot allocate memory'')),
      uuid4_hex = (\<lambda>n. ''0123456789abcdef0123456789abcdef''),
      json_inspect = (\<lambda>out. Inl (InspectError ''invalid json''))\<rparr>"

definition world0 :: world where
  "world0 = \<lparr>calls = [], clock = 0, uuids = 0\<rparr>"

definition info_c1 :: container_info where
  "info_c1 =
     \<lparr>ci_container_id = ''c1'', ci_name = ''openhands-0123456789ab'',
      ci_options = SandboxRuntimeOptions_default, ci_status = ''running'', ci_created_at = 0\<rparr>"

definition runtime_empty :: DockerRuntime where
  "runtime_empty = \<lparr>config = DEFAULT_CONFIG, containers = Map.empty, initialized = True\<rparr>"

definition runtime_c1 :: DockerRuntime where
  "runtime_c1 = \<lparr>config = DEFAULT_CONFIG, containers = [''c1'' \<mapsto> info_c1], initialized = True\<rparr>"

text \<open>An executor with the default handlers and a runtime of its own.\<close>

definition system_of :: "env \<Rightarrow> DockerRuntime \<Rightarrow> system" where
  "system_of E rt =
     \<lparr>runtime = Private rt None, action_handlers = default_handlers E, wld = world0\<rparr>"

definition request_of :: "ActionType \<Rightarrow> (string \<times> pyval) list \<Rightarrow> int \<Rightarrow> ActionRequest" where
  "request_of t ps tmo =
     \<lparr>action_type = t, parameters = map_of ps, sandbox_options = None, timeout = tmo,
      req_metadata = Map.empty\<rparr>"

definition response_done :: ActionResponse where
  "response_done =
     \<lparr>action_id = ''a1'', status = COMPLETED,
      result = Some [(''output'', RVal (PStr ''hello'')), (''return_code'', RVal (PInt 0)),
                     (''success'', RVal (PBool True))],
      error = None, execution_time = 10, metadata = Map.empty\<rparr>"

text \<open>A server tracking one finished action and one that has not finished.\<close>

definition server_two :: ActionServer where
  "server_two =
     \<lparr>running_actions = [''a1'' \<mapsto> Finished response_done, ''a2'' \<mapsto> Unfinished Propagates]\<rparr>"

text \<open>
  A server tracking a task that ended by an exception and a task that was
  cancelled.
\<close>

definition server_ended :: ActionServer where
  "server_ended =
     \<lparr>running_actions = [''a1'' \<mapsto> Failed (DockerCommandFailed ''cannot connect to the engine''),
                         ''a2'' \<mapsto> CancelledTask]\<rparr>"

section \<open>Properties of the configuration\<close>

lemma filter_dot_split:
  "length (filter (\<lambda>c. c = CHR ''.'') v) + length (filter (\<lambda>c. c \<noteq> CHR ''.'') v) = length v"
  by (induction v) auto

lemma count_list_dot: "count_list v CHR ''.'' = length (filter (\<lambda>c. c = CHR ''.'') v)"
  by (induction v) auto

lemma not_digit_dot: "\<not> digit_char CHR ''.''"
  by (simp add: digit_char_def)

lemma all_digits_no_dot:
  "list_all digit_char v \<Longrightarrow> filter (\<lambda>c. c \<noteq> CHR ''.'') v = v \<and> filter (\<lambda>c. c = CHR ''.'') v = []"
  using not_digit_dot by (induction v) auto

lemma remove1_dot_once:
  "length (filter (\<lambda>c. c = CHR ''.'') v) = 1 \<Longrightarrow>
   remove1 CHR ''.'' v = filter (\<lambda>c. c \<noteq> CHR ''.'') v"
proof (induction v)
  case Nil
  then show ?case by simp
next
  case (Cons a v)
  show ?case
  proof (cases "a = CHR ''.''")
    case True
    with Cons.prems have "filter (\<lambda>c. c = CHR ''.'') v = []" by simp
    then have "filter (\<lambda>c. c \<noteq> CHR ''.'') v = v"
      by (metis (mono_tags, lifting) filter_True filter_empty_conv)
    with True show ?thesis by simp
  next
    case False
    with Cons show ?thesis by simp
  qed
qed

lemma remove1_absent: "filter (\<lambda>c. c = CHR ''.'') v = [] \<Longrightarrow> remove1 CHR ''.'' v = v"
  by (induction v) (auto split: if_splits)

lemma validate_cpu_iff: "validate_cpu v = Inr v \<longleftrightarrow> cpu_format v"
proof -
  let ?dots = "filter (\<lambda>c. c = CHR ''.'') v"
  let ?ds = "filter (\<lambda>c. c \<noteq> CHR ''.'') v"
  consider (none) "?dots = []" | (one) "length ?dots = 1" | (more) "2 \<le> length ?dots"
    by (cases ?dots) (auto simp: Suc_le_eq)
  then show ?thesis
  proof cases
    case none
    then have "?ds = v"
      by (metis (mono_tags, lifting) filter_True filter_empty_conv)
    with none show ?thesis
      by (auto simp: validate_cpu_def cpu_format_def isdigit_def remove1_absent count_list_dot
            Let_def)
  next
    case one
    then have nd: "\<not> list_all digit_char v"
      using all_digits_no_dot by fastforce
    from one show ?thesis
      using nd
      by (auto simp: validate_cpu_def cpu_format_def isdigit_def remove1_dot_once
            count_list_dot Let_def)
  next
    case more
    then have nd: "\<not> list_all digit_char v"
      using all_digits_no_dot by fastforce
    from more show ?thesis
      using nd
      by (auto simp: validate_cpu_def cpu_format_def isdigit_def count_list_dot Let_def)
  qed
qed

lemma validate_cpu_cases: "validate_cpu v = Inr v \<or> validate_cpu v = Inl CpuNotNumeric"
  by (simp add: validate_cpu_def)

lemma validate_memory_iff: "validate_memory v = Inr v \<longleftrightarrow> size_format v"
  by (auto simp: validate_memory_def size_format_def valid_suffixes_def isdigit_def)

lemma validate_disk_iff: "validate_disk v = Inr v \<longleftrightarrow> size_format v"
  by (auto simp: validate_disk_def size_format_def valid_suffixes_def isdigit_def)

lemma errors_of_validate_cpu: "errors_of (validate_cpu v) = [] \<longleftrightarrow> cpu_format v"
  using validate_cpu_iff [of v] validate_cpu_cases [of v] by auto

lemma errors_of_validate_memory: "errors_of (validate_memory v) = [] \<longleftrightarrow> size_format v"
  using validate_memory_iff [of v] by (auto simp: validate_memory_def split: if_splits)

lemma errors_of_validate_disk: "errors_of (validate_disk v) = [] \<longleftrightarrow> size_format v"
  using validate_disk_iff [of v] by (auto simp: validate_disk_def split: if_splits)

subsection \<open>C6: what construction of resource limits validates\<close>

text \<open>
  C6, as stated: every field is validated, \<open>cpu\<close> must be a positive decimal,
  \<open>memory\<close> and \<open>disk\<close> a magnitude with a unit suffix or a byte count, the
  timeout must be positive, and any violation is a construction error. The
  validators check less: a timeout of zero, a \<open>cpu\<close> of zero and a memory size
  whose magnitude is not a number are all accepted.
\<close>

theorem ResourceLimits_init_accepts_unspecified:
  "ResourceLimits_init ''1'' ''1G'' ''10G'' 0 10
     = Inr \<lparr>cpu = ''1'', memory = ''1G'', disk = ''10G'', rl_timeout = 0, max_processes = 10\<rparr>
   \<and> \<not> spec_limits_ok ''1'' ''1G'' ''10G'' 0
   \<and> ResourceLimits_init ''0'' ''1G'' ''10G'' 300 10
     = Inr \<lparr>cpu = ''0'', memory = ''1G'', disk = ''10G'', rl_timeout = 300, max_processes = 10\<rparr>
   \<and> \<not> spec_limits_ok ''0'' ''1G'' ''10G'' 300
   \<and> ResourceLimits_init ''1'' ''xG'' ''10G'' 300 10
     = Inr \<lparr>cpu = ''1'', memory = ''xG'', disk = ''10G'', rl_timeout = 300, max_processes = 10\<rparr>
   \<and> \<not> spec_limits_ok ''1'' ''xG'' ''10G'' 300"
  by (simp add: ResourceLimits_init_def validate_cpu_def validate_memory_def validate_disk_def
        isdigit_def digit_char_def valid_suffixes_def spec_limits_ok_def spec_cpu_ok_def
        spec_size_ok_def cpu_format_def)

text \<open>
  C6, amended: construction validates the format of \<open>cpu\<close>, \<open>memory\<close> and
  \<open>disk\<close> only. It succeeds exactly when \<open>cpu\<close> is a non-empty run of digits
  with at most one dot and \<open>memory\<close> and \<open>disk\<close> have at least two characters and
  end in K, M, G or T or consist of digits only; it then keeps all five values as
  given, the timeout and the process count unchecked. Otherwise it raises a
  validation error; a default is never substituted.
\<close>

theorem ResourceLimits_init_validates:
  "(cpu_format c \<and> size_format m \<and> size_format d \<longrightarrow>
      ResourceLimits_init c m d t p
        = Inr \<lparr>cpu = c, memory = m, disk = d, rl_timeout = t, max_processes = p\<rparr>)
   \<and> (\<not> (cpu_format c \<and> size_format m \<and> size_format d) \<longrightarrow>
      (\<exists>errs. errs \<noteq> [] \<and> ResourceLimits_init c m d t p = Inl errs))"
  using errors_of_validate_cpu [of c] errors_of_validate_memory [of m]
    errors_of_validate_disk [of d]
  by (auto simp: ResourceLimits_init_def Let_def)

theorem ResourceLimits_init_validates_witness:
  "cpu_format ''0.5'' \<and> size_format ''512M'' \<and> size_format ''2048''
   \<and> ResourceLimits_init ''0.5'' ''512M'' ''2048'' 120 10
        = Inr \<lparr>cpu = ''0.5'', memory = ''512M'', disk = ''2048'', rl_timeout = 120,
               max_processes = 10\<rparr>
   \<and> \<not> (cpu_format ''1.2.3'' \<and> size_format ''5'' \<and> size_format ''10GB'')
   \<and> (\<exists>errs. errs \<noteq> [] \<and> ResourceLimits_init ''1.2.3'' ''5'' ''10GB'' 120 10 = Inl errs)"
  using ResourceLimits_init_validates [of "''0.5''" "''512M''" "''2048''" 120 10]
    ResourceLimits_init_validates [of "''1.2.3''" "''5''" "''10GB''" 120 10]
  by (simp add: cpu_format_def size_format_def digit_char_def)

section \<open>Properties of the action server\<close>

lemma get_action_result_absent:
  "running_actions srv aid = None \<Longrightarrow> get_action_result aid srv = (Inr None, srv)"
  by (simp add: get_action_result_def)

lemma poll_absent_funpow:
  "running_actions srv aid = None \<Longrightarrow>
   ((\<lambda>s. snd (get_action_result aid s)) ^^ n) srv = srv"
  by (induction n) (simp_all add: get_action_result_absent)

subsection \<open>C3: reading a result consumes it\<close>

text \<open>
  C3, as stated: for a finished action the first call removes the entry and returns
  the terminal response. \<open>task.done()\<close> also holds of a task that ended by an
  exception or was cancelled; for these the entry is removed and
  \<open>task.result()\<close> raises, so nothing is returned.
\<close>

theorem get_action_result_raises_for_ended_task:
  "running_actions server_ended ''a1''
     = Some (Failed (DockerCommandFailed ''cannot connect to the engine''))
   \<and> task_done (Failed (DockerCommandFailed ''cannot connect to the engine''))
   \<and> get_action_result ''a1'' server_ended
       = (Inl (DockerCommandFailed ''cannot connect to the engine''),
          \<lparr>running_actions = [''a2'' \<mapsto> CancelledTask]\<rparr>)
   \<and> running_actions server_ended ''a2'' = Some CancelledTask
   \<and> task_done CancelledTask
   \<and> fst (get_action_result ''a2'' server_ended) = Inl CancelledError"
proof -
  have "[''a1'' \<mapsto> Failed (DockerCommandFailed ''cannot connect to the engine''),
         ''a2'' \<mapsto> CancelledTask](''a1'' := None) = [''a2'' \<mapsto> CancelledTask]"
    by (rule ext) simp
  then show ?thesis
    by (simp add: server_ended_def get_action_result_def)
qed

text \<open>
  C3, amended: \<open>get_action_result\<close> never blocks. For an unknown identifier and
  for an action that has not finished it returns \<open>None\<close> and leaves the table
  alone. For an action whose task is done, the first call removes the entry from
  the table: it returns the terminal response when the task ended with one, and
  raises the task's exception (\<open>CancelledError\<close> for a cancelled task) when it
  did not. In either case the identifier is no longer tracked and every later call,
  however many have gone before, returns \<open>None\<close>.
\<close>

theorem get_action_result_consuming_read:
  "(running_actions srv aid = None \<longrightarrow> get_action_result aid srv = (Inr None, srv))
   \<and> (\<forall>r. running_actions srv aid = Some (Unfinished r) \<longrightarrow>
          get_action_result aid srv = (Inr None, srv))
   \<and> (\<forall>t. running_actions srv aid = Some t \<and> task_done t \<longrightarrow>
          (\<exists>srv'. get_action_result aid srv
                     = ((case t of
                           Finished resp \<Rightarrow> Inr (Some resp)
                         | Failed e \<Rightarrow> Inl e
                         | _ \<Rightarrow> Inl CancelledError), srv')
             \<and> running_actions srv' = (running_actions srv)(aid := None)
             \<and> aid \<notin> get_running_actions srv'
             \<and> (\<forall>n. get_action_result aid (((\<lambda>s. snd (get_action_result aid s)) ^^ n) srv')
                       = (Inr None, srv'))))"
proof (intro conjI allI impI)
  assume "running_actions srv aid = None"
  then show "get_action_result aid srv = (Inr None, srv)"
    by (rule get_action_result_absent)
next
  fix r
  assume "running_actions srv aid = Some (Unfinished r)"
  then show "get_action_result aid srv = (Inr None, srv)"
    by (simp add: get_action_result_def)
next
  fix t
  assume fin: "running_actions srv aid = Some t \<and> task_done t"
  let ?out = "case t of Finished resp \<Rightarrow> Inr (Some resp) | Failed e \<Rightarrow> Inl e
                | _ \<Rightarrow> Inl CancelledError"
  let ?srv' = "srv\<lparr>running_actions := (running_actions srv)(aid := None)\<rparr>"
  have gone: "running_actions ?srv' aid = None" by simp
  from fin have "task_result t = ?out"
    by (cases t) simp_all
  with fin have "get_action_result aid srv = (?out, ?srv')"
    by (simp add: get_action_result_def)
  moreover have "aid \<notin> get_running_actions ?srv'"
    by (simp add: get_running_actions_def)
  moreover have "\<forall>n. get_action_result aid (((\<lambda>s. snd (get_action_result aid s)) ^^ n) ?srv')
                       = (Inr None, ?srv')"
    using gone by (simp add: poll_absent_funpow get_action_result_absent)
  ultimately show "\<exists>srv'. get_action_result aid srv = (?out, srv')
             \<and> running_actions srv' = (running_actions srv)(aid := None)
             \<and> aid \<notin> get_running_actions srv'
             \<and> (\<forall>n. get_action_result aid (((\<lambda>s. snd (get_action_result aid s)) ^^ n) srv')
                       = (Inr None, srv'))"
    by (intro exI [of _ ?srv']) simp
qed

theorem get_action_result_consuming_read_witness:
  "running_actions server_two ''a3'' = None
   \<and> get_action_result ''a3'' server_two = (Inr None, server_two)
   \<and> running_actions server_two ''a2'' = Some (Unfinished Propagates)
   \<and> get_action_result ''a2'' server_two = (Inr None, server_two)
   \<and> running_actions server_two ''a1'' = Some (Finished response_done)
   \<and> task_done (Finished response_done)
   \<and> fst (get_action_result ''a1'' server_two) = Inr (Some response_done)
   \<and> ''a1'' \<notin> get_running_actions (snd (get_action_result ''a1'' server_two))
   \<and> fst (get_action_result ''a1'' (snd (get_action_result ''a1'' server_two))) = Inr None
   \<and> running_actions server_ended ''a2'' = Some CancelledTask
   \<and> task_done CancelledTask
   \<and> fst (get_action_result ''a2'' server_ended) = Inl CancelledError
   \<and> ''a2'' \<notin> get_running_actions (snd (get_action_result ''a2'' server_ended))
   \<and> fst (get_action_result ''a2'' (snd (get_action_result ''a2'' server_ended))) = Inr None"
proof -
  have a3: "running_actions server_two ''a3'' = None"
    and a2: "running_actions server_two ''a2'' = Some (Unfinished Propagates)"
    and a1: "running_actions server_two ''a1'' = Some (Finished response_done)"
    and e2: "running_actions server_ended ''a2'' = Some CancelledTask"
    by (simp_all add: server_two_def server_ended_def)
  from a1 obtain srv' where first: "get_action_result ''a1'' server_two = (Inr (Some response_done), srv')"
    and gone: "''a1'' \<notin> get_running_actions srv'"
    and later: "\<forall>n. get_action_result ''a1''
                      (((\<lambda>s. snd (get_action_result ''a1'' s)) ^^ n) srv') = (Inr None, srv')"
    using get_action_result_consuming_read [of server_two "''a1''"] by fastforce
  from later have "get_action_result ''a1'' (((\<lambda>s. snd (get_action_result ''a1'' s)) ^^ 0) srv')
                     = (Inr None, srv')"
    by (rule spec)
  then have second: "get_action_result ''a1'' srv' = (Inr None, srv')" by simp
  from e2 obtain srv'' where efirst: "get_action_result ''a2'' server_ended = (Inl CancelledError, srv'')"
    and egone: "''a2'' \<notin> get_running_actions srv''"
    and elater: "\<forall>n. get_action_result ''a2''
                      (((\<lambda>s. snd (get_action_result ''a2'' s)) ^^ n) srv'') = (Inr None, srv'')"
    using get_action_result_consuming_read [of server_ended "''a2''"] by fastforce
  from elater have "get_action_result ''a2'' (((\<lambda>s. snd (get_action_result ''a2'' s)) ^^ 0) srv'')
                     = (Inr None, srv'')"
    by (rule spec)
  then have esecond: "get_action_result ''a2'' srv'' = (Inr None, srv'')" by simp
  show ?thesis
    using a3 a2 a1 e2 first gone second efirst egone esecond
      get_action_result_consuming_read [of server_two "''a3''"]
      get_action_result_consuming_read [of server_two "''a2''"]
    by simp
qed

subsection \<open>C4: cancelling an action\<close>

lemma cancel_action_noop:
  "running_actions srv aid = None \<or> (\<exists>t. running_actions srv aid = Some t \<and> task_done t) \<Longrightarrow>
   cancel_action aid srv = (False, srv)"
  by (auto simp: cancel_action_def)

lemma cancel_action_propagating:
  "running_actions srv aid = Some (Unfinished Propagates) \<Longrightarrow>
   cancel_action aid srv
     = (True, srv\<lparr>running_actions := (running_actions srv)(aid \<mapsto> CancelledTask)\<rparr>)"
  by (simp add: cancel_action_def)

text \<open>
  C4 says that a successful cancellation removes the entry from the table. For an
  unfinished action whose cancellation reaches the task boundary, awaiting the task
  raises \<open>CancelledError\<close>; the clause that catches it returns \<open>True\<close> without
  the deletion that the \<open>try\<close> body performs. The identifier is still tracked
  afterwards, and reading its result raises \<open>CancelledError\<close>.
\<close>

theorem cancel_action_leaves_entry:
  "cancel_action ''a2'' server_two
     = (True, \<lparr>running_actions = [''a1'' \<mapsto> Finished response_done, ''a2'' \<mapsto> CancelledTask]\<rparr>)
   \<and> ''a2'' \<in> get_running_actions (snd (cancel_action ''a2'' server_two))
   \<and> fst (get_action_result ''a2'' (snd (cancel_action ''a2'' server_two))) = Inl CancelledError"
  by (simp add: cancel_action_def server_two_def get_running_actions_def get_action_result_def)

section \<open>Properties of the Docker runtime\<close>

text \<open>Bytes below 128 decode to themselves.\<close>

lemma utf8_code_points_ascii:
  "list_all (\<lambda>b. b < 128) bs \<Longrightarrow> utf8_code_points bs = Some bs"
  by (induction bs) auto

lemma decode_ascii:
  "list_all (\<lambda>c. (of_char c :: nat) < 128) bs \<Longrightarrow> decode bs = Some bs"
  by (simp add: decode_def utf8_code_points_ascii list_all_iff map_idI)

lemma decode_not_utf8: "decode [CHR 0xFF, CHR 0xFE] = None"
  by (simp add: decode_def)

subsection \<open>C5: removing an unknown container\<close>

text \<open>
  C5, as stated: for an identifier that is not in the table, also one removed by an
  earlier call, \<open>remove_container\<close> returns a failure result instead of raising.
  It raises: on the empty table, and on the second of two removals.
\<close>

theorem remove_container_unknown_example:
  "remove_container engine_ok (PStr ''c1'') True (runtime_empty, world0)
     = (Inl (ContainerNotFound (PStr ''c1'')), runtime_empty, world0)
   \<and> fst (remove_container engine_ok (PStr ''c1'') True (runtime_c1, world0)) = Inr True
   \<and> fst (remove_container engine_ok (PStr ''c1'') True
            (snd (remove_container engine_ok (PStr ''c1'') True (runtime_c1, world0))))
       = Inl (ContainerNotFound (PStr ''c1''))"
  by (simp add: remove_container_def registered_def runtime_empty_def runtime_c1_def
        get_container_status_def run_docker_command_def engine_ok_def world0_def Let_def
        status_dict_def stop_container_def decode_strip_def decode_ascii strip_def
        space_char_def)

text \<open>
  C5, amended: for every identifier that is not in the container table,
  \<open>remove_container\<close> raises the "container not found" exception to its caller;
  the table is unchanged and no engine command is started.
\<close>

theorem remove_container_unknown_raises:
  "cid \<notin> dom (containers rt) \<Longrightarrow>
   remove_container E (PStr cid) force (rt, w) = (Inl (ContainerNotFound (PStr cid)), rt, w)"
  by (simp add: remove_container_def registered_def)

theorem remove_container_unknown_raises_witness:
  "''c9'' \<notin> dom (containers runtime_c1)
   \<and> remove_container engine_failing (PStr ''c9'') False (runtime_c1, world0)
       = (Inl (ContainerNotFound (PStr ''c9'')), runtime_c1, world0)"
  using remove_container_unknown_raises [of "''c9''" runtime_c1 engine_failing False world0]
  by (simp add: runtime_c1_def)

section \<open>Properties of the action executor\<close>

lemmas handler_defs = handle_execute_command_def handle_run_code_def handle_transfer_file_def
  handle_get_file_def handle_put_file_def handle_delete_file_def handle_list_directory_def
  handle_check_status_def container_for_def command_result_def code_command_def
  quoted_invocation_def escape_quotes_def param_def param_or_def dict_get_def

lemmas runtime_defs = execute_command_def registered_def wait_for_docker_command_def
  run_docker_command_def effective_timeout_def copy_to_container_def copy_from_container_def
  get_container_status_def status_dict_def stop_container_def remove_container_def
  create_container_def initialize_def build_container_name_def create_args_def truthy_str_def
  strip_def space_char_def decode_strip_def decode_ascii decode_not_utf8 options_dict_def

lemmas executor_defs = execute_action_def acquire_runtime_def run_handler_def uuid4_str_def
  get_instance_def new_action_id_def

lemmas demo_defs = engine_ok_def engine_failing_def engine_slow_def engine_binary_def
  engine_refusing_def
  world0_def info_c1_def
  runtime_empty_def runtime_c1_def system_of_def request_of_def DEFAULT_CONFIG_def
  SandboxRuntimeOptions_default_def ResourceLimits_default_def DockerConfig_default_def

lemma set_runtime_same: "the_runtime r = Some rt \<Longrightarrow> set_runtime r rt = r"
  by (cases r) auto

lemma the_runtime_set_runtime:
  "the_runtime r = Some rt \<Longrightarrow> the_runtime (set_runtime r rt') = Some rt'"
  by (cases r) auto

lemma acquire_runtime_present:
  "the_runtime r = Some rt \<Longrightarrow> acquire_runtime E r w = (Inr rt, r, w)"
  by (cases r) (auto simp: acquire_runtime_def)

lemma new_action_id_calls: "calls (snd (new_action_id E aid w)) = calls w"
  by (simp add: new_action_id_def uuid4_str_def Let_def split: option.splits)

text \<open>With a runtime at hand, \<open>execute_action\<close> is its \<open>try\<close> block.\<close>

lemma execute_action_present:
  assumes "the_runtime (runtime s) = Some rt"
  shows "execute_action E req aid s =
     (case run_handler (action_handlers s) req
             \<lparr>action_id = fst (new_action_id E aid (wld s)), status = RUNNING, result = None,
              error = None, execution_time = 0, metadata = req_metadata req\<rparr>
             (rt, snd (new_action_id E aid (wld s))) of
        (r, rt2, w2) \<Rightarrow> (r, s\<lparr>runtime := set_runtime (runtime s) rt2, wld := w2\<rparr>))"
  using assms
  by (simp add: execute_action_def acquire_runtime_present split_beta Let_def)

subsection \<open>C2: an action type without a handler\<close>

text \<open>
  C2: when the executor holds a runtime and no handler is registered for the type of
  the request, \<open>execute_action\<close> returns a response with status \<open>FAILED\<close> and the
  "type not supported" message, and no runtime operation takes place: the runtime,
  with its container table, is the one it was and no engine command is started.
\<close>

theorem execute_action_unregistered_type:
  assumes "the_runtime (runtime s) = Some rt"
    and "action_handlers s (action_type req) = None"
  shows "\<exists>resp s'. execute_action E req aid s = (Inr resp, s')
           \<and> status resp = FAILED
           \<and> error resp = Some (str_exception (UnsupportedActionType (action_type req)))
           \<and> result resp = None
           \<and> runtime s' = runtime s
           \<and> calls (wld s') = calls (wld s)"
  using assms
  by (simp add: execute_action_present run_handler_def set_runtime_same new_action_id_calls)

theorem execute_action_unregistered_type_witness:
  "the_runtime (runtime (system_of engine_ok runtime_c1)) = Some runtime_c1
   \<and> action_handlers (system_of engine_ok runtime_c1)
        (action_type (request_of CUSTOM [(''command'', PStr ''ls'')] 30)) = None
   \<and> (\<exists>resp s'. execute_action engine_ok (request_of CUSTOM [(''command'', PStr ''ls'')] 30) None
                    (system_of engine_ok runtime_c1) = (Inr resp, s')
           \<and> status resp = FAILED
           \<and> error resp = Some ''unsupported action type: custom''
           \<and> result resp = None
           \<and> runtime s' = Private runtime_c1 None
           \<and> calls (wld s') = [])"
  using execute_action_unregistered_type [of "system_of engine_ok runtime_c1" runtime_c1
      "request_of CUSTOM [(''command'', PStr ''ls'')] 30" engine_ok None]
  by (simp add: system_of_def request_of_def world0_def)

subsection \<open>C9: exit codes of executed commands\<close>

lemma wait_for_docker_command_cases:
  "wait_for_docker_command E args t w =
     (let line = join_sp (''docker'' # args)
      in if t \<le> 0 then (Inl TimeoutError, w)
         else (case docker E (length (calls w)) line of
                 Inl failure \<Rightarrow> (Inl (spawn_exception failure), w)
               | Inr p \<Rightarrow>
                   (let ran = w\<lparr>calls := calls w @ [line], clock := clock w + duration p\<rparr>
                    in if t * 1000 < int (duration p)
                       then (Inl TimeoutError,
                             w\<lparr>calls := calls w @ [line], clock := clock w + nat (t * 1000)\<rparr>)
                       else (case decode_strip (stdout p) of
                               None \<Rightarrow> (Inl UnicodeDecodeError, ran)
                             | Some out \<Rightarrow>
                                 (case decode_strip (stderr p) of
                                    None \<Rightarrow> (Inl UnicodeDecodeError, ran)
                                  | Some err \<Rightarrow>
                                      (if returncode p \<noteq> 0
                                       then (Inl (DockerCommandFailed err), ran)
                                       else (Inr out, ran)))))))"
  by (simp add: wait_for_docker_command_def run_docker_command_def Let_def
        split: option.splits sum.splits)

lemma decode_strip_None: "decode_strip pipe = None \<longleftrightarrow> pipe \<noteq> [] \<and> decode pipe = None"
  by (simp add: decode_strip_def)

text \<open>
  C9, as stated: whenever the \<open>docker exec\<close> process exits 0 the result says
  \<open>success = True\<close> and \<open>return_code = 0\<close>. The output of the process is
  decoded before its exit code is looked at: a process that exits 0, in time, after
  writing bytes that are not UTF-8 gives \<open>success = False\<close> and
  \<open>return_code = -1\<close>.
\<close>

theorem exit_zero_with_binary_output_fails:
  "docker engine_binary 0 ''docker exec c1 sh -c cat /bin/true''
     = Inr \<lparr>returncode = 0, stdout = [CHR 0xFF, CHR 0xFE], stderr = [], duration = 10\<rparr>
   \<and> execute_command engine_binary (PStr ''c1'') (PStr ''cat /bin/true'') (Some 30)
         (runtime_c1, world0)
       = (Inr [(''success'', PBool False),
               (''output'', PStr ''utf-8 codec cannot decode byte''),
               (''return_code'', PInt (- 1)),
               (''error'', PStr ''utf-8 codec cannot decode byte'')],
          runtime_c1,
          \<lparr>calls = [''docker exec c1 sh -c cat /bin/true''], clock = 10, uuids = 0\<rparr>)"
  by (simp add: execute_command_def registered_def wait_for_docker_command_cases
        decode_strip_def decode_not_utf8 effective_timeout_def engine_binary_def runtime_c1_def
        world0_def Let_def)

text \<open>
  C9, amended: for a registered container, \<open>execute_command\<close> always returns a
  dictionary and never raises. When the \<open>docker exec\<close> process is started, ends
  within the deadline, writes output that decodes as UTF-8 on both pipes and exits
  0, the dictionary says \<open>success = True\<close> and \<open>return_code = 0\<close>; when it
  exits with any other code, writes output that is not UTF-8, cannot be started, or
  the deadline expires, it says \<open>success = False\<close> and \<open>return_code = -1\<close>,
  whatever the exit code was.
\<close>

theorem execute_command_collapses_exit_codes:
  assumes "cid \<in> dom (containers rt)"
  shows "\<exists>r w'. execute_command E (PStr cid) (PStr c) tmo (rt, w) = (Inr r, rt, w')
           \<and> (let t = effective_timeout rt tmo
               in case docker E (length (calls w))
                         (join_sp [''docker'', ''exec'', cid, ''sh'', ''-c'', c]) of
                    Inr p \<Rightarrow>
                      (if 0 < t \<and> int (duration p) \<le> t * 1000
                          \<and> (stdout p = [] \<or> decode (stdout p) \<noteq> None)
                          \<and> (stderr p = [] \<or> decode (stderr p) \<noteq> None)
                          \<and> returncode p = 0
                       then map_of r ''success'' = Some (PBool True)
                            \<and> map_of r ''return_code'' = Some (PInt 0)
                       else map_of r ''success'' = Some (PBool False)
                            \<and> map_of r ''return_code'' = Some (PInt (- 1)))
                  | Inl failure \<Rightarrow>
                      map_of r ''success'' = Some (PBool False)
                      \<and> map_of r ''return_code'' = Some (PInt (- 1)))"
proof -
  let ?args = "[''exec'', cid, ''sh'', ''-c'', c]"
  let ?line = "join_sp (''docker'' # ?args)"
  let ?t = "effective_timeout rt tmo"
  from assms have reg: "registered rt (PStr cid) = Some cid"
    by (simp add: registered_def)
  have run: "execute_command E (PStr cid) (PStr c) tmo (rt, w)
      = (case wait_for_docker_command E ?args ?t w of
           (Inr out, w') \<Rightarrow>
             (Inr [(''success'', PBool True), (''output'', PStr out), (''return_code'', PInt 0)],
              rt, w')
         | (Inl e, w') \<Rightarrow>
             (if e = TimeoutError
              then (Inr [(''success'', PBool False), (''output'', PStr ''command timed out''),
                         (''return_code'', PInt (- 1)), (''error'', PStr ''Timeout'')], rt, w')
              else if is_Exception e
              then (Inr [(''success'', PBool False), (''output'', PStr (str_exception e)),
                         (''return_code'', PInt (- 1)),
                         (''error'', PStr (str_exception e))], rt, w')
              else (Inl e, rt, w')))"
    using reg by (simp add: execute_command_def Let_def split: prod.splits sum.splits)
  have failed: "\<exists>r w'. execute_command E (PStr cid) (PStr c) tmo (rt, w) = (Inr r, rt, w')
                  \<and> map_of r ''success'' = Some (PBool False)
                  \<and> map_of r ''return_code'' = Some (PInt (- 1))"
    if "wait_for_docker_command E ?args ?t w = (Inl e, w')" and "is_Exception e" for e w'
    using that unfolding run by (auto simp del: join_sp.simps)
  show ?thesis
  proof (cases "docker E (length (calls w)) ?line")
    case (Inl failure)
    have "\<exists>e w'. wait_for_docker_command E ?args ?t w = (Inl e, w') \<and> is_Exception e"
      using Inl
      by (cases failure)
         (auto simp: wait_for_docker_command_cases Let_def simp del: join_sp.simps)
    with failed Inl show ?thesis
      by (auto simp: Let_def simp del: join_sp.simps)
  next
    case (Inr p)
    let ?ok = "0 < ?t \<and> int (duration p) \<le> ?t * 1000
               \<and> (stdout p = [] \<or> decode (stdout p) \<noteq> None)
               \<and> (stderr p = [] \<or> decode (stderr p) \<noteq> None)
               \<and> returncode p = 0"
    have "\<exists>r w'. execute_command E (PStr cid) (PStr c) tmo (rt, w) = (Inr r, rt, w')
             \<and> (if ?ok
                 then map_of r ''success'' = Some (PBool True)
                      \<and> map_of r ''return_code'' = Some (PInt 0)
                 else map_of r ''success'' = Some (PBool False)
                      \<and> map_of r ''return_code'' = Some (PInt (- 1)))"
    proof (cases "?t \<le> 0 \<or> ?t * 1000 < int (duration p)")
      case True
      with Inr have "\<exists>w'. wait_for_docker_command E ?args ?t w = (Inl TimeoutError, w')"
        by (auto simp: wait_for_docker_command_cases Let_def simp del: join_sp.simps)
      with failed [of TimeoutError] True show ?thesis
        by (auto simp del: join_sp.simps)
    next
      case intime: False
      show ?thesis
      proof (cases "decode_strip (stdout p)")
        case None
        with intime Inr
        have "\<exists>w'. wait_for_docker_command E ?args ?t w = (Inl UnicodeDecodeError, w')"
          by (simp add: wait_for_docker_command_cases Let_def del: join_sp.simps)
        moreover from None have "\<not> (stdout p = [] \<or> decode (stdout p) \<noteq> None)"
          by (simp add: decode_strip_None)
        ultimately show ?thesis
          using failed [of UnicodeDecodeError] by (auto simp del: join_sp.simps)
      next
        case out: (Some out)
        then have out_ok: "stdout p = [] \<or> decode (stdout p) \<noteq> None"
          using decode_strip_None [of "stdout p"] by auto
        show ?thesis
        proof (cases "decode_strip (stderr p)")
          case None
          with intime out Inr
          have "\<exists>w'. wait_for_docker_command E ?args ?t w = (Inl UnicodeDecodeError, w')"
            by (simp add: wait_for_docker_command_cases Let_def del: join_sp.simps)
          moreover from None have "\<not> (stderr p = [] \<or> decode (stderr p) \<noteq> None)"
            by (simp add: decode_strip_None)
          ultimately show ?thesis
            using failed [of UnicodeDecodeError] by (auto simp del: join_sp.simps)
        next
          case err: (Some err)
          then have err_ok: "stderr p = [] \<or> decode (stderr p) \<noteq> None"
            using decode_strip_None [of "stderr p"] by auto
          show ?thesis
          proof (cases "returncode p = 0")
            case True
            with intime out err Inr
            have "\<exists>w'. wait_for_docker_command E ?args ?t w = (Inr out, w')"
              by (simp add: wait_for_docker_command_cases Let_def del: join_sp.simps)
            then obtain w' where "wait_for_docker_command E ?args ?t w = (Inr out, w')" ..
            with True intime out_ok err_ok show ?thesis
              unfolding run by (auto simp del: join_sp.simps)
          next
            case False
            with intime out err Inr
            have "\<exists>w'. wait_for_docker_command E ?args ?t w
                         = (Inl (DockerCommandFailed err), w')"
              by (simp add: wait_for_docker_command_cases Let_def del: join_sp.simps)
            with False show ?thesis
              using failed [of "DockerCommandFailed err"] by (auto simp del: join_sp.simps)
          qed
        qed
      qed
    qed
    with Inr show ?thesis
      by (simp add: Let_def del: join_sp.simps)
  qed
qed

theorem execute_command_collapses_exit_codes_witness:
  "''c1'' \<in> dom (containers runtime_c1)
   \<and> (\<exists>r w'. execute_command engine_failing (PStr ''c1'') (PStr ''exit 3'') (Some 30)
                  (runtime_c1, world0) = (Inr r, runtime_c1, w')
          \<and> map_of r ''success'' = Some (PBool False)
          \<and> map_of r ''return_code'' = Some (PInt (- 1)))
   \<and> (\<exists>r w'. execute_command engine_ok (PStr ''c1'') (PStr ''true'') (Some 30)
                  (runtime_c1, world0) = (Inr r, runtime_c1, w')
          \<and> map_of r ''success'' = Some (PBool True)
          \<and> map_of r ''return_code'' = Some (PInt 0))
   \<and> (\<exists>r w'. execute_command engine_slow (PStr ''c1'') (PStr ''sleep 5'') (Some 1)
                  (runtime_c1, world0) = (Inr r, runtime_c1, w')
          \<and> map_of r ''success'' = Some (PBool False)
          \<and> map_of r ''return_code'' = Some (PInt (- 1)))
   \<and> (\<exists>r w'. execute_command engine_binary (PStr ''c1'') (PStr ''cat /bin/true'') (Some 30)
                  (runtime_c1, world0) = (Inr r, runtime_c1, w')
          \<and> map_of r ''success'' = Some (PBool False)
          \<and> map_of r ''return_code'' = Some (PInt (- 1)))
   \<and> (\<exists>r w'. execute_command engine_refusing (PStr ''c1'') (PStr ''true'') (Some 30)
                  (runtime_c1, world0) = (Inr r, runtime_c1, w')
          \<and> map_of r ''success'' = Some (PBool False)
          \<and> map_of r ''return_code'' = Some (PInt (- 1)))"
  using execute_command_collapses_exit_codes
          [of "''c1''" runtime_c1 engine_failing "''exit 3''" "Some 30" world0]
        execute_command_collapses_exit_codes
          [of "''c1''" runtime_c1 engine_ok "''true''" "Some 30" world0]
        execute_command_collapses_exit_codes
          [of "''c1''" runtime_c1 engine_slow "''sleep 5''" "Some 1" world0]
        execute_command_collapses_exit_codes
          [of "''c1''" runtime_c1 engine_binary "''cat /bin/true''" "Some 30" world0]
        execute_command_collapses_exit_codes
          [of "''c1''" runtime_c1 engine_refusing "''true''" "Some 30" world0]
  by (simp add: runtime_c1_def engine_failing_def engine_ok_def engine_slow_def
        engine_binary_def engine_refusing_def effective_timeout_def world0_def decode_ascii
        decode_not_utf8)

subsection \<open>C7: missing required parameters\<close>

lemma run_handler_missing:
  assumes "handlers (action_type req) = Some h"
    and "h req resp (rt, w) = (Inl (MissingParameter m), resp, rt, w)"
  shows "run_handler handlers req resp (rt, w)
           = (Inr (resp\<lparr>status := FAILED, error := Some m\<rparr>), rt, w)"
  using assms by (simp add: run_handler_def)

lemma default_handler_missing:
  assumes "k \<in> set (required_parameters (action_type req))"
    and "\<not> truthy (param req k)"
  shows "\<exists>h m. default_handlers E (action_type req) = Some h
           \<and> h req resp (rt, w) = (Inl (MissingParameter m), resp, rt, w)"
proof (cases "action_type req")
  case EXECUTE_COMMAND
  with assms show ?thesis by (simp add: handle_execute_command_def)
next
  case RUN_CODE
  with assms show ?thesis by (simp add: handle_run_code_def)
next
  case TRANSFER_FILE
  with assms show ?thesis by (auto simp: Let_def handle_transfer_file_def)
next
  case GET_FILE
  with assms show ?thesis by (auto simp: Let_def handle_get_file_def)
next
  case PUT_FILE
  with assms show ?thesis by (auto simp: Let_def handle_put_file_def handle_transfer_file_def)
next
  case DELETE_FILE
  with assms show ?thesis by (auto simp: Let_def handle_delete_file_def)
next
  case LIST_DIRECTORY
  with assms show ?thesis by (auto simp: Let_def handle_list_directory_def)
next
  case CHECK_STATUS
  with assms show ?thesis by (simp add: handle_check_status_def)
next
  case CUSTOM
  with assms show ?thesis by simp
qed

text \<open>
  C7, as stated, lists \<open>language\<close> among the required parameters of
  \<open>RUN_CODE\<close>. The handler reads it with the default \<open>python\<close>: a request
  with code and no language runs the code through the runtime and completes.
\<close>

theorem run_code_without_language_completes:
  "''language'' \<in> set (spec_required_parameters RUN_CODE)
   \<and> parameters (request_of RUN_CODE [(''code'', PStr ''print(1)''), (''container_id'', PStr ''c1'')] 30)
        ''language'' = None
   \<and> fst (execute_action engine_ok
             (request_of RUN_CODE [(''code'', PStr ''print(1)''), (''container_id'', PStr ''c1'')] 30)
             (Some ''a1'') (system_of engine_ok runtime_c1))
       = Inr \<lparr>action_id = ''a1'', status = COMPLETED,
              result = Some [(''output'', RVal (PStr ''c7'')), (''return_code'', RVal (PInt 0)),
                             (''success'', RVal (PBool True)), (''language'', RVal (PStr ''python''))],
              error = None, execution_time = 10, metadata = Map.empty\<rparr>
   \<and> calls (wld (snd (execute_action engine_ok
             (request_of RUN_CODE [(''code'', PStr ''print(1)''), (''container_id'', PStr ''c1'')] 30)
             (Some ''a1'') (system_of engine_ok runtime_c1))))
       = [''docker exec c1 sh -c python -c '' @ [CHR 0x22] @ ''print(1)'' @ [CHR 0x22]]"
  by (simp add: handler_defs runtime_defs executor_defs demo_defs Let_def)

text \<open>
  C7, amended: for every built-in action type, if a parameter its handler requires
  is missing or falsy (\<open>command\<close> for \<open>EXECUTE_COMMAND\<close>; \<open>code\<close> for
  \<open>RUN_CODE\<close>, whose \<open>language\<close> is optional; both paths and
  \<open>container_id\<close> for the file transfers; the path and \<open>container_id\<close> for
  deletion and listing; \<open>container_id\<close> for \<open>CHECK_STATUS\<close>), then
  \<open>execute_action\<close> returns a \<open>FAILED\<close> response with an error message, the
  runtime is unchanged and no engine command is started.
\<close>

theorem execute_action_missing_parameter:
  assumes "the_runtime (runtime s) = Some rt"
    and "action_handlers s (action_type req) = default_handlers E (action_type req)"
    and "k \<in> set (required_parameters (action_type req))"
    and "\<not> truthy (param req k)"
  shows "\<exists>resp s'. execute_action E req aid s = (Inr resp, s')
           \<and> status resp = FAILED
           \<and> error resp \<noteq> None
           \<and> result resp = None
           \<and> runtime s' = runtime s
           \<and> calls (wld s') = calls (wld s)"
proof -
  let ?resp = "\<lparr>action_id = fst (new_action_id E aid (wld s)), status = RUNNING, result = None,
                error = None, execution_time = 0, metadata = req_metadata req\<rparr>"
  let ?w = "snd (new_action_id E aid (wld s))"
  from default_handler_missing [OF assms(3,4)]
  obtain h m where h: "default_handlers E (action_type req) = Some h"
    and miss: "h req ?resp (rt, ?w) = (Inl (MissingParameter m), ?resp, rt, ?w)"
    by blast
  from h assms(2) have "action_handlers s (action_type req) = Some h" by simp
  then have "run_handler (action_handlers s) req ?resp (rt, ?w)
               = (Inr (?resp\<lparr>status := FAILED, error := Some m\<rparr>), rt, ?w)"
    using miss by (rule run_handler_missing)
  then have "execute_action E req aid s
          = (Inr (?resp\<lparr>status := FAILED, error := Some m\<rparr>),
             s\<lparr>runtime := set_runtime (runtime s) rt, wld := ?w\<rparr>)"
    using assms(1) by (simp add: execute_action_present)
  then show ?thesis
    using assms(1) by (simp add: set_runtime_same new_action_id_calls)
qed

theorem execute_action_missing_parameter_witness:
  "the_runtime (runtime (system_of engine_ok runtime_c1)) = Some runtime_c1
   \<and> action_handlers (system_of engine_ok runtime_c1)
         (action_type (request_of GET_FILE [(''container_path'', PStr ''/tmp/x''),
                                            (''container_id'', PStr ''c1'')] 30))
       = default_handlers engine_ok
           (action_type (request_of GET_FILE [(''container_path'', PStr ''/tmp/x''),
                                              (''container_id'', PStr ''c1'')] 30))
   \<and> ''host_path'' \<in> set (required_parameters
          (action_type (request_of GET_FILE [(''container_path'', PStr ''/tmp/x''),
                                             (''container_id'', PStr ''c1'')] 30)))
   \<and> \<not> truthy (param (request_of GET_FILE [(''container_path'', PStr ''/tmp/x''),
                                            (''container_id'', PStr ''c1'')] 30) ''host_path'')
   \<and> (\<exists>resp s'. execute_action engine_ok
                      (request_of GET_FILE [(''container_path'', PStr ''/tmp/x''),
                                            (''container_id'', PStr ''c1'')] 30)
                      (Some ''a1'') (system_of engine_ok runtime_c1) = (Inr resp, s')
           \<and> status resp = FAILED
           \<and> error resp \<noteq> None
           \<and> result resp = None
           \<and> runtime s' = Private runtime_c1 None
           \<and> calls (wld s') = [])"
  using execute_action_missing_parameter [of "system_of engine_ok runtime_c1" runtime_c1
      "request_of GET_FILE [(''container_path'', PStr ''/tmp/x''), (''container_id'', PStr ''c1'')] 30"
      engine_ok "''host_path''" "Some ''a1''"]
  by (simp add: system_of_def request_of_def world0_def param_def)

subsection \<open>C10: file copies report success\<close>

lemma copy_to_container_registered:
  "cid \<in> dom (containers rt) \<Longrightarrow>
   \<exists>b w'. copy_to_container E (PStr cid) src dst (rt, w) = (Inr b, rt, w')"
  by (auto simp: copy_to_container_def registered_def split: pyval.splits prod.splits sum.splits)

lemma copy_from_container_registered:
  "cid \<in> dom (containers rt) \<Longrightarrow>
   \<exists>b w'. copy_from_container E (PStr cid) src dst (rt, w) = (Inr b, rt, w')"
  by (auto simp: copy_from_container_def registered_def split: pyval.splits prod.splits sum.splits)

lemma handle_transfer_file_registered:
  assumes "cid \<in> dom (containers rt)" and "cid \<noteq> []"
    and "param req ''container_id'' = PStr cid"
    and "truthy (param req ''source_path'')" and "truthy (param req ''destination_path'')"
  shows "\<exists>w'. handle_transfer_file E req resp (rt, w)
           = (Inr [(''success'', RVal (PBool True)), (''source'', RVal (param req ''source_path'')),
                   (''destination'', RVal (param req ''destination_path''))], resp, rt, w')"
proof -
  from copy_to_container_registered [OF assms(1)]
  obtain b w' where "copy_to_container E (PStr cid) (param req ''source_path'')
                       (param req ''destination_path'') (rt, w) = (Inr b, rt, w')"
    by blast
  with assms show ?thesis
    by (simp add: handle_transfer_file_def Let_def)
qed

lemma handle_get_file_registered:
  assumes "cid \<in> dom (containers rt)" and "cid \<noteq> []"
    and "param req ''container_id'' = PStr cid"
    and "truthy (param req ''container_path'')" and "truthy (param req ''host_path'')"
  shows "\<exists>w'. handle_get_file E req resp (rt, w)
           = (Inr [(''success'', RVal (PBool True)),
                   (''container_path'', RVal (param req ''container_path'')),
                   (''host_path'', RVal (param req ''host_path''))], resp, rt, w')"
proof -
  from copy_from_container_registered [OF assms(1)]
  obtain b w' where "copy_from_container E (PStr cid) (param req ''container_path'')
                       (param req ''host_path'') (rt, w) = (Inr b, rt, w')"
    by blast
  with assms show ?thesis
    by (simp add: handle_get_file_def Let_def)
qed

lemma run_handler_completed:
  assumes "handlers (action_type req) = Some h"
    and "h req resp (rt, w) = (Inr res, resp', rt', w')"
  shows "run_handler handlers req resp (rt, w)
           = (Inr (resp'\<lparr>status := COMPLETED, result := Some res,
                       execution_time := clock w' - clock w\<rparr>), rt', w')"
  using assms by (simp add: run_handler_def)

text \<open>
  C10: for a \<open>TRANSFER_FILE\<close>, \<open>PUT_FILE\<close> or \<open>GET_FILE\<close> request whose
  required parameters are present and whose container is registered, the response
  is \<open>COMPLETED\<close> and its result says \<open>success = True\<close>, on every engine: the
  boolean returned by the copy does not enter the result.
\<close>

theorem file_copy_reports_success:
  assumes "the_runtime (runtime s) = Some rt"
    and "action_handlers s (action_type req) = default_handlers E (action_type req)"
    and "param req ''container_id'' = PStr cid" and "cid \<noteq> []"
    and "cid \<in> dom (containers rt)"
    and "(action_type req \<in> {TRANSFER_FILE, PUT_FILE}
            \<and> truthy (param req ''source_path'') \<and> truthy (param req ''destination_path''))
         \<or> (action_type req = GET_FILE
            \<and> truthy (param req ''container_path'') \<and> truthy (param req ''host_path''))"
  shows "\<exists>resp s' res. execute_action E req aid s = (Inr resp, s')
           \<and> status resp = COMPLETED
           \<and> result resp = Some res
           \<and> map_of res ''success'' = Some (RVal (PBool True))"
proof -
  let ?resp = "\<lparr>action_id = fst (new_action_id E aid (wld s)), status = RUNNING, result = None,
                error = None, execution_time = 0, metadata = req_metadata req\<rparr>"
  let ?w = "snd (new_action_id E aid (wld s))"
  have "\<exists>h res w'. action_handlers s (action_type req) = Some h
          \<and> h req ?resp (rt, ?w) = (Inr res, ?resp, rt, w')
          \<and> map_of res ''success'' = Some (RVal (PBool True))"
  proof -
    from assms(6) consider
      (put) "action_type req \<in> {TRANSFER_FILE, PUT_FILE}"
        "truthy (param req ''source_path'')" "truthy (param req ''destination_path'')"
      | (get) "action_type req = GET_FILE"
        "truthy (param req ''container_path'')" "truthy (param req ''host_path'')"
      by blast
    then show ?thesis
    proof cases
      case put
      from handle_transfer_file_registered [OF assms(5,4,3) put(2,3), of E ?resp ?w]
      obtain w' where "handle_transfer_file E req ?resp (rt, ?w)
           = (Inr [(''success'', RVal (PBool True)), (''source'', RVal (param req ''source_path'')),
                   (''destination'', RVal (param req ''destination_path''))], ?resp, rt, w')"
        by blast
      with put(1) assms(2) show ?thesis
        by (auto simp: handle_put_file_def)
    next
      case get
      from handle_get_file_registered [OF assms(5,4,3) get(2,3), of E ?resp ?w]
      obtain w' where "handle_get_file E req ?resp (rt, ?w)
           = (Inr [(''success'', RVal (PBool True)),
                   (''container_path'', RVal (param req ''container_path'')),
                   (''host_path'', RVal (param req ''host_path''))], ?resp, rt, w')"
        by blast
      with get(1) assms(2) show ?thesis
        by auto
    qed
  qed
  then obtain h res w' where h: "action_handlers s (action_type req) = Some h"
    and run: "h req ?resp (rt, ?w) = (Inr res, ?resp, rt, w')"
    and ok: "map_of res ''success'' = Some (RVal (PBool True))"
    by blast
  from h run have "run_handler (action_handlers s) req ?resp (rt, ?w)
      = (Inr (?resp\<lparr>status := COMPLETED, result := Some res,
                   execution_time := clock w' - clock ?w\<rparr>), rt, w')"
    by (rule run_handler_completed)
  with assms(1) ok show ?thesis
    by (simp add: execute_action_present)
qed

theorem file_copy_reports_success_witness:
  "the_runtime (runtime (system_of engine_failing runtime_c1)) = Some runtime_c1
   \<and> ''c1'' \<in> dom (containers runtime_c1)
   \<and> fst (copy_to_container engine_failing (PStr ''c1'') (PStr ''/etc/absent'') (PStr ''/tmp/x'')
            (runtime_c1, world0)) = Inr False
   \<and> (\<exists>resp s' res.
          execute_action engine_failing
            (request_of PUT_FILE [(''source_path'', PStr ''/etc/absent''),
                                  (''destination_path'', PStr ''/tmp/x''),
                                  (''container_id'', PStr ''c1'')] 30)
            (Some ''a1'') (system_of engine_failing runtime_c1) = (Inr resp, s')
          \<and> status resp = COMPLETED
          \<and> result resp = Some res
          \<and> map_of res ''success'' = Some (RVal (PBool True)))
   \<and> (\<exists>resp s' res.
          execute_action engine_failing
            (request_of GET_FILE [(''container_path'', PStr ''/etc/absent''),
                                  (''host_path'', PStr ''/tmp/x''),
                                  (''container_id'', PStr ''c1'')] 30)
            (Some ''a1'') (system_of engine_failing runtime_c1) = (Inr resp, s')
          \<and> status resp = COMPLETED
          \<and> result resp = Some res
          \<and> map_of res ''success'' = Some (RVal (PBool True)))"
  using file_copy_reports_success [of "system_of engine_failing runtime_c1" runtime_c1
      "request_of PUT_FILE [(''source_path'', PStr ''/etc/absent''),
                            (''destination_path'', PStr ''/tmp/x''),
                            (''container_id'', PStr ''c1'')] 30"
      engine_failing "''c1''" "Some ''a1''"]
    file_copy_reports_success [of "system_of engine_failing runtime_c1" runtime_c1
      "request_of GET_FILE [(''container_path'', PStr ''/etc/absent''),
                            (''host_path'', PStr ''/tmp/x''),
                            (''container_id'', PStr ''c1'')] 30"
      engine_failing "''c1''" "Some ''a1''"]
  by (simp add: system_of_def request_of_def param_def runtime_c1_def world0_def
        copy_to_container_def registered_def run_docker_command_def engine_failing_def Let_def
        decode_strip_def decode_ascii)

subsection \<open>C8: temporary containers\<close>

lemma spawn_exception_kind:
  "spawn_exception failure \<noteq> TimeoutError \<and> is_Exception (spawn_exception failure)"
  by (cases failure) simp_all

lemma run_docker_command_effect:
  "\<exists>r w'. run_docker_command E args chk w = (r, w')
     \<and> (case r of Inl e \<Rightarrow> e \<noteq> TimeoutError \<and> is_Exception e | Inr out \<Rightarrow> True)"
  by (simp add: run_docker_command_def Let_def spawn_exception_kind del: join_sp.simps
        split: option.splits sum.splits)

lemma initialize_effect:
  "\<exists>r rt' w'. initialize E (rt, w) = (r, rt', w')
     \<and> containers rt' = containers rt
     \<and> (case r of Inl e \<Rightarrow> e \<noteq> TimeoutError \<and> is_Exception e | Inr u \<Rightarrow> True)"
proof (cases "initialized rt")
  case True
  then show ?thesis by (simp add: initialize_def)
next
  case False
  obtain r w' where run: "run_docker_command E [''version''] True w = (r, w')"
    and e: "case r of Inl e \<Rightarrow> e \<noteq> TimeoutError \<and> is_Exception e | Inr out \<Rightarrow> True"
    using run_docker_command_effect [of E "[''version'']" True w] by auto
  with False show ?thesis
    by (cases r) (simp_all add: initialize_def)
qed

text \<open>
  \<open>create_container\<close> never returns: whatever the engine does, it raises, and the
  container table is the one it was.
\<close>

lemma create_container_raises:
  "\<exists>e rt' w'. create_container E opts (rt, w) = (Inl e, rt', w')
     \<and> containers rt' = containers rt \<and> e \<noteq> TimeoutError \<and> is_Exception e"
proof -
  obtain r0 rt1 w1 where init: "initialize E (rt, w) = (r0, rt1, w1)"
    and t1: "containers rt1 = containers rt"
    and e1: "case r0 of Inl e \<Rightarrow> e \<noteq> TimeoutError \<and> is_Exception e | Inr u \<Rightarrow> True"
    using initialize_effect [of E rt w] by blast
  show ?thesis
  proof (cases r0)
    case (Inl e)
    with init t1 e1 show ?thesis
      by (simp add: create_container_def)
  next
    case (Inr u)
    let ?options = "case opts of Some p \<Rightarrow> p | None \<Rightarrow> SandboxRuntimeOptions_default"
    let ?name = "fst (build_container_name E w1)"
    let ?w2 = "snd (build_container_name E w1)"
    obtain r3 w3 where run3: "run_docker_command E (create_args ?name ?options) True ?w2 = (r3, w3)"
      and e3: "case r3 of Inl e \<Rightarrow> e \<noteq> TimeoutError \<and> is_Exception e | Inr out \<Rightarrow> True"
      using run_docker_command_effect [of E "create_args ?name ?options" True ?w2] by blast
    show ?thesis
    proof (cases r3)
      case (Inl e)
      with Inr init run3 e3 t1 show ?thesis
        by (simp add: create_container_def split_beta Let_def)
    next
      case cid: (Inr container_id)
      obtain r4 w4 where run4: "run_docker_command E [''start'', container_id] True w3 = (r4, w4)"
        and e4: "case r4 of Inl e \<Rightarrow> e \<noteq> TimeoutError \<and> is_Exception e | Inr out \<Rightarrow> True"
        using run_docker_command_effect [of E "[''start'', container_id]" True w3] by blast
      from Inr cid init run3 run4 e4 t1 show ?thesis
        by (cases r4) (simp_all add: create_container_def split_beta Let_def options_dict_def)
    qed
  qed
qed

lemma wait_for_docker_command_exception:
  "wait_for_docker_command E args t w = (Inl e, w') \<Longrightarrow> is_Exception e"
  by (auto simp: wait_for_docker_command_cases Let_def spawn_exception_kind
           simp del: join_sp.simps split: if_splits option.splits sum.splits)

lemma execute_command_effect:
  "\<exists>r w'. execute_command E cid cmd tmo (rt, w) = (r, rt, w')
     \<and> (case r of Inl e \<Rightarrow> e \<noteq> TimeoutError \<and> is_Exception e | Inr d \<Rightarrow> True)"
proof (cases "registered rt cid")
  case None
  then show ?thesis by (simp add: execute_command_def)
next
  case (Some c)
  obtain r w' where inner: "(case cmd of
                        PStr s \<Rightarrow> wait_for_docker_command E [''exec'', c, ''sh'', ''-c'', s]
                                    (effective_timeout rt tmo) w
                      | _ \<Rightarrow> (if effective_timeout rt tmo \<le> 0 then (Inl TimeoutError, w)
                              else (Inl TypeError, w))) = (r, w')"
    by (meson surj_pair)
  have exn: "is_Exception e" if "r = Inl e" for e
    using inner that wait_for_docker_command_exception [of E _ _ w e w']
    by (cases cmd) (auto split: if_splits)
  from Some inner exn show ?thesis
    by (cases r) (simp_all add: execute_command_def Let_def del: join_sp.simps)
qed

lemma container_for_effect:
  "\<exists>r resp' rt' w'. container_for E req resp (rt, w) = (r, resp', rt', w')
     \<and> resp' = resp \<and> containers rt' = containers rt
     \<and> (if truthy (param req ''container_id'')
         then r = Inr (param req ''container_id'') \<and> rt' = rt
         else (\<exists>e. r = Inl e \<and> e \<noteq> TimeoutError \<and> is_Exception e))"
proof (cases "truthy (param req ''container_id'')")
  case True
  then show ?thesis by (simp add: container_for_def)
next
  case False
  obtain e rt' w' where "create_container E (sandbox_options req) (rt, w) = (Inl e, rt', w')"
    and "containers rt' = containers rt" and "e \<noteq> TimeoutError" and "is_Exception e"
    using create_container_raises [of E "sandbox_options req" rt w] by blast
  with False show ?thesis by (simp add: container_for_def)
qed

text \<open>
  The part the command and the code handler share: find or create the container,
  execute the command, wrap its result.
\<close>

lemma command_stage_effect:
  "\<exists>r resp' rt' w'.
      (case container_for E req resp (rt, w) of
         (Inl e, response1, rt1, w1) \<Rightarrow> (Inl e, response1, rt1, w1)
       | (Inr container_id, response1, rt1, w1) \<Rightarrow>
           (case execute_command E container_id cmd tmo (rt1, w1) of
              (Inl e, rt2, w2) \<Rightarrow> (Inl e, response1, rt2, w2)
            | (Inr d, rt2, w2) \<Rightarrow> (Inr (wrap d), response1, rt2, w2)))
        = (r, resp', rt', w')
     \<and> resp' = resp \<and> containers rt' = containers rt
     \<and> (\<forall>e. r = Inl e \<longrightarrow> e \<noteq> TimeoutError \<and> is_Exception e)
     \<and> (\<not> truthy (param req ''container_id'') \<longrightarrow> (\<exists>e. r = Inl e))"
proof -
  obtain r1 resp1 rt1 w1 where cf: "container_for E req resp (rt, w) = (r1, resp1, rt1, w1)"
    and same: "resp1 = resp" "containers rt1 = containers rt"
    and eff1: "if truthy (param req ''container_id'')
               then r1 = Inr (param req ''container_id'') \<and> rt1 = rt
               else (\<exists>e. r1 = Inl e \<and> e \<noteq> TimeoutError \<and> is_Exception e)"
    using container_for_effect [of E req resp rt w] by blast
  show ?thesis
  proof (cases r1)
    case (Inl e)
    with cf same eff1 show ?thesis
      by (auto split: if_splits)
  next
    case (Inr container_id)
    obtain r2 w2 where ex: "execute_command E container_id cmd tmo (rt1, w1) = (r2, rt1, w2)"
      and eff2: "case r2 of Inl e \<Rightarrow> e \<noteq> TimeoutError \<and> is_Exception e | Inr d \<Rightarrow> True"
      using execute_command_effect [of E container_id cmd tmo rt1 w1] by blast
    from Inr cf same eff1 ex eff2 show ?thesis
      by (cases r2) (auto split: if_splits)
  qed
qed

text \<open>
  Every command or code request that passes its handler's checks and brings no
  usable \<open>container_id\<close> fails: nothing is registered and nothing is recorded in
  the response's metadata.
\<close>

lemma request_without_container_fails:
  assumes "the_runtime (runtime s) = Some rt"
    and "action_handlers s (action_type req) = default_handlers E (action_type req)"
    and "(action_type req = EXECUTE_COMMAND \<and> truthy (param req ''command''))
         \<or> (action_type req = RUN_CODE \<and> truthy (param req ''code'')
            \<and> (\<exists>c. code_command (param_or req ''language'' (PStr ''python''))
                                 (param req ''code'') = Inr c))"
    and "\<not> truthy (param req ''container_id'')"
  shows "\<exists>resp s' rt'. execute_action E req aid s = (Inr resp, s')
           \<and> the_runtime (runtime s') = Some rt'
           \<and> status resp = FAILED
           \<and> metadata resp = req_metadata req
           \<and> containers rt' = containers rt"
proof -
  let ?resp = "\<lparr>action_id = fst (new_action_id E aid (wld s)), status = RUNNING, result = None,
                error = None, execution_time = 0, metadata = req_metadata req\<rparr>"
  let ?w = "snd (new_action_id E aid (wld s))"
  have "\<exists>h cmd wrap. action_handlers s (action_type req) = Some h
          \<and> h req ?resp (rt, ?w)
              = (case container_for E req ?resp (rt, ?w) of
                   (Inl e, response1, rt1, w1) \<Rightarrow> (Inl e, response1, rt1, w1)
                 | (Inr container_id, response1, rt1, w1) \<Rightarrow>
                     (case execute_command E container_id cmd (Some (timeout req)) (rt1, w1) of
                        (Inl e, rt2, w2) \<Rightarrow> (Inl e, response1, rt2, w2)
                      | (Inr d, rt2, w2) \<Rightarrow> (Inr (wrap d), response1, rt2, w2)))"
  proof -
    from assms(3) consider
      (cmd) "action_type req = EXECUTE_COMMAND" "truthy (param req ''command'')"
      | (code) c where "action_type req = RUN_CODE" "truthy (param req ''code'')"
          "code_command (param_or req ''language'' (PStr ''python'')) (param req ''code'') = Inr c"
      by blast
    then show ?thesis
    proof cases
      case cmd
      with assms(2) show ?thesis
        by (auto simp: handle_execute_command_def Let_def)
    next
      case code
      with assms(2) show ?thesis
        by (auto simp: handle_run_code_def Let_def)
    qed
  qed
  then obtain h cmd wrap where h: "action_handlers s (action_type req) = Some h"
    and stage: "h req ?resp (rt, ?w)
              = (case container_for E req ?resp (rt, ?w) of
                   (Inl e, response1, rt1, w1) \<Rightarrow> (Inl e, response1, rt1, w1)
                 | (Inr container_id, response1, rt1, w1) \<Rightarrow>
                     (case execute_command E container_id cmd (Some (timeout req)) (rt1, w1) of
                        (Inl e, rt2, w2) \<Rightarrow> (Inl e, response1, rt2, w2)
                      | (Inr d, rt2, w2) \<Rightarrow> (Inr (wrap d), response1, rt2, w2)))"
    by blast
  from command_stage_effect [where E = E and req = req and resp = ?resp and rt = rt and w = ?w
      and cmd = cmd and tmo = "Some (timeout req)" and wrap = wrap] stage assms(4)
  obtain e rt' w' where run: "h req ?resp (rt, ?w) = (Inl e, ?resp, rt', w')"
    and t: "containers rt' = containers rt"
    and exn: "e \<noteq> TimeoutError" "is_Exception e"
    by auto
  from h run exn have "execute_action E req aid s
        = (Inr (?resp\<lparr>status := FAILED, error := Some (str_exception e)\<rparr>),
           s\<lparr>runtime := set_runtime (runtime s) rt', wld := w'\<rparr>)"
    using assms(1) by (simp add: execute_action_present run_handler_def)
  moreover have "the_runtime (set_runtime (runtime s) rt') = Some rt'"
    using assms(1) by (rule the_runtime_set_runtime)
  ultimately show ?thesis
    using t by simp
qed

text \<open>
  C8 says that a command or code request without a container identifier creates
  exactly one container and records its identifier in
  \<open>metadata["temp_container"]\<close>. On an engine that carries out every command,
  \<open>docker create\<close> and \<open>docker start\<close> are run, then building the table entry
  raises \<open>AttributeError\<close>: the response is \<open>FAILED\<close>, its metadata records
  nothing, and the container table stays empty although the engine has started a
  container.
\<close>

theorem temp_container_never_recorded:
  "parameters (request_of EXECUTE_COMMAND [(''command'', PStr ''echo hi'')] 30) ''container_id'' = None
   \<and> fst (execute_action engine_ok
             (request_of EXECUTE_COMMAND [(''command'', PStr ''echo hi'')] 30)
             (Some ''a1'') (system_of engine_ok runtime_empty))
       = Inr \<lparr>action_id = ''a1'', status = FAILED, result = None,
              error = Some ''object has no attribute dict'',
              execution_time = 0, metadata = Map.empty\<rparr>
   \<and> runtime (snd (execute_action engine_ok
             (request_of EXECUTE_COMMAND [(''command'', PStr ''echo hi'')] 30)
             (Some ''a1'') (system_of engine_ok runtime_empty)))
       = Private runtime_empty None
   \<and> containers runtime_empty = Map.empty
   \<and> calls (wld (snd (execute_action engine_ok
             (request_of EXECUTE_COMMAND [(''command'', PStr ''echo hi'')] 30)
             (Some ''a1'') (system_of engine_ok runtime_empty))))
       = [''docker create --name openhands-0123456789ab --workdir /workspace --network bridge --cpus 1 --memory 1G python:3.12-slim'',
          ''docker start c7'']"
  by (simp add: handler_defs runtime_defs executor_defs demo_defs Let_def)

subsection \<open>C1: a command that outlasts the timeout\<close>

lemma handle_execute_command_no_timeout:
  "fst (handle_execute_command E req resp (rt, w)) \<noteq> Inl TimeoutError"
proof (cases "truthy (param req ''command'')")
  case False
  then show ?thesis by (simp add: handle_execute_command_def)
next
  case True
  from command_stage_effect [where E = E and req = req and resp = resp and rt = rt and w = w
      and cmd = "param req ''command''" and tmo = "Some (timeout req)" and wrap = command_result]
  show ?thesis
    using True by (auto simp: handle_execute_command_def Let_def)
qed

lemma handle_run_code_no_timeout:
  "fst (handle_run_code E req resp (rt, w)) \<noteq> Inl TimeoutError"
proof (cases "truthy (param req ''code'')")
  case False
  then show ?thesis by (simp add: handle_run_code_def)
next
  case True
  show ?thesis
  proof (cases "code_command (param_or req ''language'' (PStr ''python'')) (param req ''code'')")
    case (Inl e)
    then have "e \<noteq> TimeoutError"
      by (auto simp: code_command_def quoted_invocation_def split: if_splits pyval.splits)
    with Inl True show ?thesis by (simp add: handle_run_code_def)
  next
    case (Inr cmd)
    from command_stage_effect [where E = E and req = req and resp = resp and rt = rt and w = w
        and cmd = cmd and tmo = "Some (timeout req)"
        and wrap = "\<lambda>r. command_result r
                        @ [(''language'', RVal (param_or req ''language'' (PStr ''python'')))]"]
    show ?thesis
      using True Inr by (auto simp: handle_run_code_def Let_def)
  qed
qed

text \<open>
  No command or code request handled by the built-in handlers ends as
  \<open>TIMED_OUT\<close>: the handlers never raise \<open>TimeoutError\<close>.
\<close>

lemma command_request_never_timed_out:
  assumes "the_runtime (runtime s) = Some rt"
    and "action_handlers s (action_type req) = default_handlers E (action_type req)"
    and "action_type req = EXECUTE_COMMAND \<or> action_type req = RUN_CODE"
    and "execute_action E req aid s = (Inr resp, s')"
  shows "status resp = COMPLETED \<or> status resp = FAILED"
proof -
  let ?resp = "\<lparr>action_id = fst (new_action_id E aid (wld s)), status = RUNNING, result = None,
                error = None, execution_time = 0, metadata = req_metadata req\<rparr>"
  let ?w = "snd (new_action_id E aid (wld s))"
  from assms(2,3) obtain h where h: "action_handlers s (action_type req) = Some h"
    and nt: "fst (h req ?resp (rt, ?w)) \<noteq> Inl TimeoutError"
    using handle_execute_command_no_timeout [of E req ?resp rt ?w]
      handle_run_code_no_timeout [of E req ?resp rt ?w]
    by auto
  obtain r resp' rt' w' where run: "h req ?resp (rt, ?w) = (r, resp', rt', w')"
    by (cases "h req ?resp (rt, ?w)") auto
  with nt have "r \<noteq> Inl TimeoutError" by simp
  with h run assms(1,4) show ?thesis
    by (cases r) (auto simp: execute_action_present run_handler_def split: if_splits)
qed

text \<open>
  C1 says that a request whose handler exceeds the timeout ends with status
  \<open>TIMED_OUT\<close>. For a command that needs 5 seconds under a timeout of 1 second,
  the runtime turns the expired deadline into an ordinary result, the handler
  returns it, and the response is \<open>COMPLETED\<close> with a result that says
  \<open>success = False\<close>; the execution time is the timeout, 1000 ms.
\<close>

theorem slow_command_reported_completed:
  "fst (execute_action engine_slow
          (request_of EXECUTE_COMMAND [(''command'', PStr ''sleep 5''),
                                       (''container_id'', PStr ''c1'')] 1)
          (Some ''a1'') (system_of engine_slow runtime_c1))
     = Inr \<lparr>action_id = ''a1'', status = COMPLETED,
            result = Some [(''output'', RVal (PStr ''command timed out'')),
                           (''return_code'', RVal (PInt (- 1))),
                           (''success'', RVal (PBool False))],
            error = None, execution_time = 1000, metadata = Map.empty\<rparr>"
  by (simp add: handler_defs runtime_defs executor_defs demo_defs Let_def)

end
